theory Spec2Isabelle
  imports Complex_Main "HOL-Library.Sublist" "HOL-Library.Char_ord" "HOL-Library.List_Lexorder"
    "HOL-Library.Finite_Map"
begin

section \<open>JavaScript values\<close>

text \<open>
  A field of a JSON object read in JavaScript is absent (\<open>undefined\<close>), \<open>null\<close> or holds
  a value. The three cases are kept apart because the route handlers treat them
  differently (\<open>x || ''\<close>, \<open>x ? ... : undefined\<close>, plain copying).
\<close>

datatype 'a js = Undefined | Null | Val 'a

text \<open>\<open>s || ''\<close> on a string-or-null field: every falsy operand gives the empty string.\<close>

fun or_empty_string :: "string js \<Rightarrow> string js" where
  "or_empty_string (Val s) = (if s = [] then Val [] else Val s)"
| "or_empty_string Null = Val []"
| "or_empty_string Undefined = Val []"

text \<open>\<open>xs || []\<close> on an array field: an array, even an empty one, is truthy.\<close>

fun or_empty_array :: "'a list js \<Rightarrow> 'a list js" where
  "or_empty_array (Val xs) = Val xs"
| "or_empty_array Null = Val []"
| "or_empty_array Undefined = Val []"

section \<open>Normalized GitHub projects (types/github.ts)\<close>

record License =
  lic_name :: string
  lic_url :: "string js"

text \<open>
  \<open>GitHubProjectData\<close>. The TypeScript interface marks the fields from \<open>topics\<close> on as
  optional; at run time the route handlers copy upstream values into them, so every field
  that an upstream \<open>null\<close> can reach is a \<open>js\<close> value here. The field \<open>id\<close> is named
  \<open>proj_id\<close> (\<open>id\<close> is the identity function of HOL).
\<close>

record GitHubProjectData =
  proj_id :: int
  name :: string
  full_name :: string
  description :: "string js"
  html_url :: string
  stargazers_count :: int
  language :: "string js"
  avatar_url :: "string js"
  topics :: "string list js"
  open_issues_count :: int
  created_at :: string
  updated_at :: string
  homepage :: "string js"
  forks_count :: int
  license :: "License js"
  is_bookmarked :: "bool js"

section \<open>Browser storage helpers (lib/github-utils.ts)\<close>

text \<open>
  The helpers keep two arrays in \<open>localStorage\<close>, under \<open>devforecast_bookmarked_projects\<close>
  and \<open>devforecast_view_history\<close>. An item is modelled by the array it parses to;
  \<open>None\<close> is an item that is absent or does not parse, for which the getters return
  \<open>[]\<close>. Only these helpers write the two keys, and they write arrays.
  \<open>window_defined\<close> is \<open>typeof window !== 'undefined'\<close>: on the server every helper
  returns at once. \<open>localStorage.setItem\<close> is taken to succeed.
\<close>

record Browser =
  window_defined :: bool
  bookmark_item :: "GitHubProjectData list option"
  view_history_item :: "string list option"

definition getBookmarkedProjects :: "Browser \<Rightarrow> GitHubProjectData list" where
  "getBookmarkedProjects b =
     (if \<not> window_defined b then []
      else case bookmark_item b of None \<Rightarrow> [] | Some bs \<Rightarrow> bs)"

definition addBookmarkedProject :: "GitHubProjectData \<Rightarrow> Browser \<Rightarrow> Browser" where
  "addBookmarkedProject project b =
     (if \<not> window_defined b then b
      else let bookmarks = getBookmarkedProjects b in
        if \<not> list_ex (\<lambda>p. proj_id p = proj_id project) bookmarks
        then b\<lparr>bookmark_item := Some (bookmarks @ [project\<lparr>is_bookmarked := Val True\<rparr>])\<rparr>
        else b)"

definition removeBookmarkedProject :: "int \<Rightarrow> Browser \<Rightarrow> Browser" where
  "removeBookmarkedProject projectId b =
     (if \<not> window_defined b then b
      else let bookmarks = getBookmarkedProjects b;
               updatedBookmarks = filter (\<lambda>p. proj_id p \<noteq> projectId) bookmarks
           in b\<lparr>bookmark_item := Some updatedBookmarks\<rparr>)"

definition isProjectBookmarked :: "int \<Rightarrow> Browser \<Rightarrow> bool" where
  "isProjectBookmarked projectId b =
     (if \<not> window_defined b then False
      else list_ex (\<lambda>p. proj_id p = projectId) (getBookmarkedProjects b))"

definition getViewHistory :: "Browser \<Rightarrow> string list" where
  "getViewHistory b =
     (if \<not> window_defined b then []
      else case view_history_item b of None \<Rightarrow> [] | Some h \<Rightarrow> h)"

definition addToViewHistory :: "string \<Rightarrow> Browser \<Rightarrow> Browser" where
  "addToViewHistory fullName b =
     (if \<not> window_defined b then b
      else let history = getViewHistory b;
               updatedHistory = take 20 (fullName # filter (\<lambda>item. item \<noteq> fullName) history)
           in b\<lparr>view_history_item := Some updatedHistory\<rparr>)"

definition clearViewHistory :: "Browser \<Rightarrow> Browser" where
  "clearViewHistory b = (if \<not> window_defined b then b else b\<lparr>view_history_item := Some []\<rparr>)"

text \<open>A run of the bookmark helpers, as the components call them one after another.\<close>

datatype BookmarkCall = Add GitHubProjectData | Remove int

fun bookmarkCall :: "BookmarkCall \<Rightarrow> Browser \<Rightarrow> Browser" where
  "bookmarkCall (Add p) b = addBookmarkedProject p b"
| "bookmarkCall (Remove i) b = removeBookmarkedProject i b"

definition bookmarkCalls :: "BookmarkCall list \<Rightarrow> Browser \<Rightarrow> Browser" where
  "bookmarkCalls cs b = fold bookmarkCall cs b"

definition distinct_ids :: "GitHubProjectData list \<Rightarrow> bool" where
  "distinct_ids bs = distinct (map proj_id bs)"

section \<open>Client-side cache (lib/client-cache.ts)\<close>

text \<open>
  Times are epoch milliseconds and durations are milliseconds, both integers
  (\<open>Date.now()\<close>); each operation receives the reading of the clock it makes.
\<close>

record 'd CacheEntry =
  data :: 'd
  timestamp :: int

record 'd ClientCacheEntry = "'d CacheEntry" +
  expiryTime :: int

text \<open>
  The item \<open>devforecast_api_cache\<close> of \<open>localStorage\<close>: absent, text that
  \<open>JSON.parse\<close> rejects, or a stored object of entries.
\<close>

datatype 'd StoredCache = NoItem | Unparsable | Stored "(string, 'd ClientCacheEntry) fmap"

text \<open>
  The static fields of the class \<open>ClientCache\<close>, with the environment it reads:
  \<open>has_window\<close> is \<open>typeof window !== 'undefined'\<close>. \<open>cacheStore\<close> is a JavaScript
  object used as a dictionary, hence a finite map; its keys are the texts that such an
  object stores as properties of its own (every text but \<open>__proto__\<close>). Writing the
  item is taken to succeed.
\<close>

record 'd ClientCache =
  has_window :: bool
  isInitialized :: bool
  cacheStore :: "(string, 'd ClientCacheEntry) fmap"
  storedCache :: "'d StoredCache"

definition persistCache :: "'d ClientCache \<Rightarrow> 'd ClientCache" where
  "persistCache c = (if \<not> has_window c then c else c\<lparr>storedCache := Stored (cacheStore c)\<rparr>)"

definition expired :: "int \<Rightarrow> (string, 'd ClientCacheEntry) fmap \<Rightarrow> string \<Rightarrow> bool" where
  "expired now store key =
     (case fmlookup store key of None \<Rightarrow> False | Some entry \<Rightarrow> expiryTime entry < now)"

definition cleanExpiredEntries :: "int \<Rightarrow> 'd ClientCache \<Rightarrow> 'd ClientCache" where
  "cleanExpiredEntries now c =
     (let kept = fmfilter (\<lambda>key. \<not> expired now (cacheStore c) key) (cacheStore c);
          hasRemovedEntries = (kept \<noteq> cacheStore c);
          c' = c\<lparr>cacheStore := kept\<rparr>
      in if hasRemovedEntries then persistCache c' else c')"

definition initialize :: "int \<Rightarrow> 'd ClientCache \<Rightarrow> 'd ClientCache" where
  "initialize now c =
     (if \<not> has_window c \<or> isInitialized c then c
      else case storedCache c of
          NoItem \<Rightarrow> c\<lparr>isInitialized := True\<rparr>
        | Stored parsed \<Rightarrow> (cleanExpiredEntries now (c\<lparr>cacheStore := parsed\<rparr>))\<lparr>isInitialized := True\<rparr>
        | Unparsable \<Rightarrow> c\<lparr>cacheStore := fmempty\<rparr>)"

definition cleanCache :: "int \<Rightarrow> 'd ClientCache \<Rightarrow> 'd ClientCache" where
  "cleanCache now c = cleanExpiredEntries now (initialize now c)"

text \<open>\<open>ClientCache.get\<close>: \<open>None\<close> is the \<open>null\<close> it returns for a missing entry.\<close>

definition ClientCache_get :: "int \<Rightarrow> string \<Rightarrow> 'd ClientCache \<Rightarrow> 'd option \<times> 'd ClientCache" where
  "ClientCache_get now key c =
     (let c' = cleanExpiredEntries now (initialize now c)
      in case fmlookup (cacheStore c') key of
           None \<Rightarrow> (None, c')
         | Some entry \<Rightarrow> (Some (data entry), c'))"

definition ClientCache_set :: "int \<Rightarrow> string \<Rightarrow> 'd \<Rightarrow> int \<Rightarrow> 'd ClientCache \<Rightarrow> 'd ClientCache" where
  "ClientCache_set now key d duration c =
     (let c' = initialize now c
      in persistCache (c'\<lparr>cacheStore :=
           fmupd key \<lparr>data = d, timestamp = now, expiryTime = now + duration\<rparr> (cacheStore c')\<rparr>))"

definition ClientCache_has :: "int \<Rightarrow> string \<Rightarrow> 'd ClientCache \<Rightarrow> bool \<times> 'd ClientCache" where
  "ClientCache_has now key c =
     (let c' = initialize now c
      in case fmlookup (cacheStore c') key of
           None \<Rightarrow> (False, c')
         | Some entry \<Rightarrow> (expiryTime entry > now, c'))"

definition ClientCache_clear :: "int \<Rightarrow> string \<Rightarrow> 'd ClientCache \<Rightarrow> 'd ClientCache" where
  "ClientCache_clear now key c =
     (let c' = initialize now c
      in case fmlookup (cacheStore c') key of
           None \<Rightarrow> c'
         | Some entry \<Rightarrow> persistCache (c'\<lparr>cacheStore := fmdrop key (cacheStore c')\<rparr>))"

definition ClientCache_clearAll :: "'d ClientCache \<Rightarrow> 'd ClientCache" where
  "ClientCache_clearAll c =
     (let c' = c\<lparr>cacheStore := fmempty\<rparr>
      in if has_window c then c'\<lparr>storedCache := NoItem\<rparr> else c')"

text \<open>
  The stored item mirrors \<open>cacheStore\<close> whenever the class would still read it: a
  state that every \<open>set\<close> establishes.
\<close>

definition synced :: "'d ClientCache \<Rightarrow> bool" where
  "synced c = (has_window c \<and> \<not> isInitialized c \<longrightarrow> storedCache c = Stored (cacheStore c))"

subsection \<open>Cache keys\<close>

text \<open>
  A parameter object \<open>Record<string, string | number | boolean>\<close> is the list of its
  properties in enumeration order; its keys are distinct. Numbers are the integers that
  \<open>String\<close> prints in plain decimal notation.
\<close>

datatype ParamValue = PStr string | PNum int | PBool bool

definition digit_char :: "nat \<Rightarrow> char" where
  "digit_char n = ''0123456789'' ! (n mod 10)"

fun decimal :: "nat \<Rightarrow> string" where
  "decimal n = (if n < 10 then [digit_char n] else decimal (n div 10) @ [digit_char n])"

definition String_of_int :: "int \<Rightarrow> string" where
  "String_of_int i = (if i < 0 then CHR ''-'' # decimal (nat (- i)) else decimal (nat i))"

text \<open>\<open>String(params[key])\<close>; a key without a property reads \<open>undefined\<close>.\<close>

fun String_of :: "ParamValue option \<Rightarrow> string" where
  "String_of (Some (PStr s)) = s"
| "String_of (Some (PNum n)) = String_of_int n"
| "String_of (Some (PBool b)) = (if b then ''true'' else ''false'')"
| "String_of None = ''undefined''"

fun join :: "string \<Rightarrow> string list \<Rightarrow> string" where
  "join sep [] = []"
| "join sep [x] = x"
| "join sep (x # y # ys) = x @ sep @ join sep (y # ys)"

definition sortedParams :: "(string \<times> ParamValue) list \<Rightarrow> string list" where
  "sortedParams params =
     map (\<lambda>key. key @ ''='' @ String_of (map_of params key)) (sort (map fst params))"

definition generateCacheKey :: "string \<Rightarrow> (string \<times> ParamValue) list \<Rightarrow> string" where
  "generateCacheKey endpoint params =
     (let joined = join ''&'' (sortedParams params)
      in endpoint @ (if joined \<noteq> [] then ''?'' @ joined else []))"

section \<open>HTTP plumbing shared by the route handlers\<close>

text \<open>
  What the network gives for one request: nothing (\<open>NoReply\<close> with the message of the
  network error) or a response with a status and a body. \<open>axios_get validateStatus\<close>
  resolves with the response when \<open>validateStatus\<close> accepts the status and rejects
  otherwise; the rejection keeps the response when there is one.
\<close>

datatype 'a HttpReply = NoReply string | Reply int 'a

datatype 'a Axios = Resolved int 'a | RejectedResponse int 'a string | RejectedNoResponse string

definition status_message :: "int \<Rightarrow> string" where
  "status_message st = ''Request failed with status code '' @ String_of_int st"

fun axios_get :: "(int \<Rightarrow> bool) \<Rightarrow> 'a HttpReply \<Rightarrow> 'a Axios" where
  "axios_get validateStatus (NoReply m) = RejectedNoResponse m"
| "axios_get validateStatus (Reply st d) =
     (if validateStatus st then Resolved st d else RejectedResponse st d (status_message st))"

text \<open>The default \<open>validateStatus\<close> of axios accepts the 2xx statuses only.\<close>

definition default_validateStatus :: "int \<Rightarrow> bool" where
  "default_validateStatus st = (200 \<le> st \<and> st < 300)"

text \<open>
  A thrown \<open>TypeError\<close> (a property read on \<open>undefined\<close> or \<open>null\<close>, a call of a
  missing method); its message is the JavaScript engine's, written here as one fixed text.
\<close>

datatype Thrown = TypeError

definition thrown_message :: "Thrown \<Rightarrow> string" where
  "thrown_message e = ''TypeError''"

text \<open>
  A JSON response: an error envelope \<open>{error, details}\<close> (\<open>details\<close> absent in some)
  or a payload. \<open>NextResponse.json(x)\<close> has status 200 unless one is given.
\<close>

datatype 'p Body = ErrorJson string "string js" | Json 'p

record 'p NextResponse =
  status :: int
  body :: "'p Body"

text \<open>
  What one run of a handler leaves behind: its response, the module-level cache after
  it, and the upstream requests it made, in order.
\<close>

record ('p, 'c, 'u) Handled =
  response :: "'p NextResponse"
  cache_after :: 'c
  upstream_calls :: "'u list"

type_synonym 'd ServerCache = "string \<Rightarrow> 'd CacheEntry option"

text \<open>\<open>cache[key] && (now - cache[key].timestamp) < duration\<close>: the entry, when it is served.\<close>

definition fresh_entry :: "'d ServerCache \<Rightarrow> string \<Rightarrow> int \<Rightarrow> int \<Rightarrow> 'd CacheEntry option" where
  "fresh_entry cache cacheKey now duration =
     (case cache cacheKey of
        None \<Rightarrow> None
      | Some entry \<Rightarrow> if now - timestamp entry < duration then Some entry else None)"

section \<open>OpenWeatherMap requests and data\<close>

datatype OwmQuery = ByCity string | ByCoord real real

record OwmUrl =
  url_base :: string
  url_path :: string
  url_query :: OwmQuery
  url_appid :: string
  url_units :: string

record Coord =
  lon :: real
  lat :: real

text \<open>
  The body of a \<open>/weather\<close> response as the handlers read it: \<open>coord\<close>, \<open>message\<close>
  (present in OpenWeatherMap's error bodies) and the remaining fields, which are only
  copied. A body that is absent or falsy is \<open>Null\<close> or \<open>Undefined\<close> of \<open>js\<close>.
\<close>

record CurrentWeatherData =
  coord :: "Coord js"
  message :: "string js"
  other_fields :: string

record Weather =
  weather_id :: int
  weather_main :: string
  weather_description :: string
  icon :: string

record ThreeHourForecastItem =
  dt :: int
  main_temp :: real
  main_pressure :: real
  main_humidity :: real
  weather :: "Weather list"
  clouds_all :: real
  wind_speed :: real
  wind_deg :: real
  pop :: real

record City =
  timezone :: int

record RawForecastResponse =
  forecast_list :: "ThreeHourForecastItem list js"
  city :: "City js"
  forecast_message :: "string js"

record WeatherRequest =
  city_param :: "string option"
  units_param :: "string option"

record WeatherEnv =
  OPENWEATHERMAP_API_KEY :: "string option"
  OPENWEATHERMAP_BASE_URL :: "string option"

text \<open>\<open>searchParams.get('units') || 'metric'\<close>\<close>

definition units_of :: "WeatherRequest \<Rightarrow> string" where
  "units_of request =
     (case units_param request of None \<Rightarrow> ''metric'' | Some u \<Rightarrow> if u = [] then ''metric'' else u)"

definition weather_cacheKey :: "string \<Rightarrow> string \<Rightarrow> string" where
  "weather_cacheKey c units = c @ ''-'' @ units"

definition key_configured :: "string option \<Rightarrow> bool" where
  "key_configured apiKey =
     (case apiKey of None \<Rightarrow> False | Some k \<Rightarrow> k \<noteq> [] \<and> k \<noteq> ''your_openweathermap_api_key'')"

definition not_configured :: "('p, 'c, 'u) Handled \<Rightarrow> ('p, 'c, 'u) Handled" where
  "not_configured h = h\<lparr>response := \<lparr>status = 500, body =
     ErrorJson ''OpenWeatherMap API key is not configured''
       (Val ''Please set a valid API key in your .env.local file'')\<rparr>\<rparr>"

text \<open>\<open>validateStatus: (status) => status < 500\<close>\<close>

definition below_500 :: "int \<Rightarrow> bool" where
  "below_500 st = (st < 500)"

text \<open>\<open>error.response.data?.message || error.message\<close>\<close>

definition message_or :: "string js \<Rightarrow> string \<Rightarrow> string" where
  "message_or m fallback = (case m of Val t \<Rightarrow> if t = [] then fallback else t | _ \<Rightarrow> fallback)"

section \<open>Current weather route (app/api/weather/route.ts)\<close>





section \<open>Combined weather route: daily summaries (processForecastList)\<close>

text \<open>
  Temperatures and probabilities are JavaScript numbers, taken here as reals;
  timestamps and the timezone offset are whole seconds. Where a reduction of an empty
  array would give \<open>Infinity\<close>, \<open>-Infinity\<close> or \<open>NaN\<close> the result is \<open>None\<close>.
\<close>

record DayBucket =
  temps :: "real list"
  weatherIcons :: "string list"
  pops :: "real list"
  bucket_dt :: int

record DailyForecastData =
  daily_dt :: int
  temp_min :: "real option"
  temp_max :: "real option"
  temp_day :: "real option"
  temp_night :: "real option"
  temp_eve :: "real option"
  temp_morn :: "real option"
  daily_weather :: "Weather list"
  daily_pop :: "real option"
  summary :: string
  pressure :: real
  humidity :: real
  daily_wind_speed :: real
  daily_wind_deg :: real
  clouds :: real

text \<open>
  \<open>date = new Date((item.dt + timezoneOffset) * 1000)\<close>. The key of a bucket is the
  text \<open>YYYY-MM-DD\<close> of the UTC date of \<open>date\<close>, which names the day: it is modelled
  by the number of that day since the epoch. \<open>getUTCHours\<close> is the hour within the day.
  Timestamps are within the range of \<open>Date\<close>.
\<close>

definition dateKey :: "int \<Rightarrow> int \<Rightarrow> int" where
  "dateKey t timezoneOffset = (t + timezoneOffset) div 86400"

definition getUTCHours :: "int \<Rightarrow> int \<Rightarrow> int" where
  "getUTCHours t timezoneOffset = ((t + timezoneOffset) mod 86400) div 3600"

text \<open>
  \<open>dailyData\<close> is an object keyed by date text; \<open>Object.entries\<close> lists such keys in
  the order of their creation, so it is the list of its entries in that order.
\<close>

type_synonym DailyData = "(int \<times> DayBucket) list"

definition update_bucket :: "int \<Rightarrow> (DayBucket \<Rightarrow> DayBucket) \<Rightarrow> DailyData \<Rightarrow> DailyData" where
  "update_bucket k f dailyData = map (\<lambda>(k', b). if k' = k then (k', f b) else (k', b)) dailyData"

text \<open>The body of \<open>list.forEach\<close>; \<open>item.weather[0].icon\<close> throws when \<open>weather\<close> is empty.\<close>

definition addItem :: "int \<Rightarrow> ThreeHourForecastItem \<Rightarrow> DailyData \<Rightarrow> Thrown + DailyData" where
  "addItem timezoneOffset item dailyData =
     (let k = dateKey (dt item) timezoneOffset;
          dailyData1 =
            (if map_of dailyData k = None then
               let created = \<lparr>temps = [], weatherIcons = [], pops = [], bucket_dt = 0\<rparr>;
                   hour = getUTCHours (dt item) timezoneOffset;
                   created' =
                     (if hour \<ge> 11 \<and> hour \<le> 13 then created\<lparr>bucket_dt := dt item\<rparr>
                      else if bucket_dt created = 0 then created\<lparr>bucket_dt := dt item\<rparr>
                      else created)
               in dailyData @ [(k, created')]
             else dailyData);
          dailyData2 = update_bucket k (\<lambda>b. b\<lparr>temps := temps b @ [main_temp item]\<rparr>) dailyData1
      in case weather item of
           [] \<Rightarrow> Inl TypeError
         | w # ws \<Rightarrow>
             Inr (update_bucket k (\<lambda>b. b\<lparr>pops := pops b @ [pop item]\<rparr>)
                   (update_bucket k (\<lambda>b. b\<lparr>weatherIcons := weatherIcons b @ [icon w]\<rparr>) dailyData2)))"

fun forEachItem :: "int \<Rightarrow> ThreeHourForecastItem list \<Rightarrow> DailyData \<Rightarrow> Thrown + DailyData" where
  "forEachItem timezoneOffset [] dailyData = Inr dailyData"
| "forEachItem timezoneOffset (item # rest) dailyData =
     (case addItem timezoneOffset item dailyData of
        Inl e \<Rightarrow> Inl e
      | Inr dailyData' \<Rightarrow> forEachItem timezoneOffset rest dailyData')"

text \<open>\<open>s.replace(a, b)\<close> with one-character texts: the first \<open>a\<close> becomes \<open>b\<close>.\<close>

fun replace_first :: "char \<Rightarrow> char \<Rightarrow> string \<Rightarrow> string" where
  "replace_first a b [] = []"
| "replace_first a b (c # cs) = (if c = a then b # cs else c # replace_first a b cs)"

definition dayIcon :: "string \<Rightarrow> string" where
  "dayIcon i = replace_first (CHR ''n'') (CHR ''d'') i"

text \<open>
  The state of the loop in \<open>getMostFrequentIcon\<close>. \<open>frequency\<close> is a fresh object used
  as a dictionary from icon codes to counts; \<open>frequency[dayIcon] || 0\<close> reads a missing
  code as 0.
\<close>

record IconScan =
  frequency :: "string \<Rightarrow> nat option"
  maxFreq :: nat
  mostFrequentIcon :: string

definition countIcon :: "string \<Rightarrow> IconScan \<Rightarrow> IconScan" where
  "countIcon i s =
     (let d = dayIcon i;
          n = (case frequency s d of None \<Rightarrow> 0 | Some m \<Rightarrow> m) + 1;
          s' = s\<lparr>frequency := (frequency s)(d \<mapsto> n)\<rparr>
      in if n > maxFreq s' then s'\<lparr>maxFreq := n, mostFrequentIcon := d\<rparr> else s')"

fun getMostFrequentIcon :: "string list \<Rightarrow> string" where
  "getMostFrequentIcon [] = ''01d''"
| "getMostFrequentIcon (i # icons) =
     mostFrequentIcon
       (fold countIcon (i # icons) \<lparr>frequency = Map.empty, maxFreq = 0, mostFrequentIcon = i\<rparr>)"

fun Math_min :: "real list \<Rightarrow> real option" where
  "Math_min [] = None"
| "Math_min (x # xs) = Some (fold min xs x)"

fun Math_max :: "real list \<Rightarrow> real option" where
  "Math_max [] = None"
| "Math_max (x # xs) = Some (fold max xs x)"

text \<open>\<open>pops.reduce((a, b) => a + b, 0) / pops.length\<close>\<close>

definition average :: "real list \<Rightarrow> real option" where
  "average xs = (if xs = [] then None else Some (fold (\<lambda>b a. a + b) xs 0 / real (length xs)))"

definition weather0 :: "ThreeHourForecastItem \<Rightarrow> Weather option" where
  "weather0 item = (case weather item of [] \<Rightarrow> None | w # ws \<Rightarrow> Some w)"

text \<open>\<open>x || fallback\<close> on a number that may be missing: 0 is falsy.\<close>

definition number_or :: "real option \<Rightarrow> real \<Rightarrow> real" where
  "number_or x fallback = (case x of None \<Rightarrow> fallback | Some v \<Rightarrow> if v = 0 then fallback else v)"

definition toDailyForecast :: "ThreeHourForecastItem list \<Rightarrow> DayBucket \<Rightarrow> DailyForecastData" where
  "toDailyForecast list b =
     (let minTemp = Math_min (temps b);
          maxTemp = Math_max (temps b);
          avgPop = average (pops b);
          mostFrequent = getMostFrequentIcon (weatherIcons b);
          atDt = find (\<lambda>item. dt item = bucket_dt b) list;
          representativeWeather =
            (case Option.bind
                    (find (\<lambda>item. case weather0 item of None \<Rightarrow> False
                                   | Some w \<Rightarrow> dayIcon (icon w) = mostFrequent) list) weather0 of
               Some w \<Rightarrow> w
             | None \<Rightarrow>
                 (case Option.bind atDt weather0 of
                    Some w \<Rightarrow> w
                  | None \<Rightarrow> \<lparr>weather_id = 800, weather_main = ''Clear'',
                             weather_description = ''clear sky'', icon = mostFrequent\<rparr>))
      in \<lparr>daily_dt = bucket_dt b,
          temp_min = minTemp,
          temp_max = maxTemp,
          temp_day = (case (minTemp, maxTemp) of (Some lo, Some hi) \<Rightarrow> Some ((lo + hi) / 2) | _ \<Rightarrow> None),
          temp_night = minTemp,
          temp_eve = maxTemp,
          temp_morn = minTemp,
          daily_weather = [representativeWeather\<lparr>icon := mostFrequent\<rparr>],
          daily_pop = avgPop,
          summary = weather_description representativeWeather,
          pressure = number_or (map_option main_pressure atDt) 1015,
          humidity = number_or (map_option main_humidity atDt) 60,
          daily_wind_speed = number_or (map_option wind_speed atDt) 0,
          daily_wind_deg = number_or (map_option wind_deg atDt) 0,
          clouds = number_or (map_option clouds_all atDt) 0\<rparr>)"

definition processForecastList ::
  "ThreeHourForecastItem list \<Rightarrow> int \<Rightarrow> Thrown + DailyForecastData list" where
  "processForecastList list timezoneOffset =
     (case forEachItem timezoneOffset list [] of
        Inl e \<Rightarrow> Inl e
      | Inr dailyData \<Rightarrow>
          Inr (take 6 (sort_key daily_dt (map (\<lambda>(k, b). toDailyForecast list b) dailyData))))"

section \<open>Combined weather route: the handler\<close>

record Forecast =
  daily :: "DailyForecastData list"
  timezone_offset :: int

record CombinedWeatherData =
  current :: "CurrentWeatherData js"
  forecast :: Forecast

text \<open>
  The payloads of the handler's responses: the combined data, or an upstream body
  passed through with the upstream status.
\<close>

datatype CombinedPayload =
    Combined CombinedWeatherData
  | UpstreamCurrent CurrentWeatherData
  | UpstreamForecast RawForecastResponse

definition CACHE_DURATION_combined :: int where
  "CACHE_DURATION_combined = 10 * 60 * 1000"

text \<open>
  The upstream of the combined handler answers \<open>/weather\<close> and \<open>/forecast\<close>
  requests, with bodies of the two kinds.
\<close>

record OwmUpstream =
  weather_endpoint :: "OwmUrl \<Rightarrow> CurrentWeatherData js HttpReply"
  forecast_endpoint :: "OwmUrl \<Rightarrow> RawForecastResponse js HttpReply"

text \<open>The outer \<open>catch\<close>, for a rejection that carries a response and for any other error.\<close>

definition outer_catch_response :: "int \<Rightarrow> string js \<Rightarrow> string \<Rightarrow> CombinedPayload NextResponse" where
  "outer_catch_response st m fallback =
     \<lparr>status = st, body = ErrorJson ''Failed to process weather request'' (Val (message_or m fallback))\<rparr>"

definition outer_catch_error :: "string \<Rightarrow> CombinedPayload NextResponse" where
  "outer_catch_error m =
     \<lparr>status = 500, body = ErrorJson ''Failed to process weather request'' (Val m)\<rparr>"

definition body_message :: "CurrentWeatherData js \<Rightarrow> string js" where
  "body_message d = (case d of Val b \<Rightarrow> message b | _ \<Rightarrow> Undefined)"

definition forecast_body_message :: "RawForecastResponse js \<Rightarrow> string js" where
  "forecast_body_message d = (case d of Val b \<Rightarrow> forecast_message b | _ \<Rightarrow> Undefined)"

text \<open>Step 2 of the handler: the forecast request, the daily summaries, the store.\<close>

definition combined_step2 ::
  "OwmUpstream \<Rightarrow> CombinedWeatherData ServerCache \<Rightarrow> string \<Rightarrow> int \<Rightarrow>
   CurrentWeatherData js \<Rightarrow> OwmUrl \<Rightarrow>
   CombinedPayload NextResponse \<times> CombinedWeatherData ServerCache" where
  "combined_step2 upstream weatherCache cacheKey now currentWeatherData forecastUrl =
     (case axios_get below_500 (forecast_endpoint upstream forecastUrl) of
        RejectedNoResponse m \<Rightarrow>
          (\<lparr>status = 503, body = ErrorJson ''Network error fetching forecast data'' (Val m)\<rparr>, weatherCache)
      | RejectedResponse st d m \<Rightarrow> (outer_catch_response st (forecast_body_message d) m, weatherCache)
      | Resolved st d \<Rightarrow>
          if st \<noteq> 200 then
            (case d of
               Val b \<Rightarrow> (\<lparr>status = st, body = Json (UpstreamForecast b)\<rparr>, weatherCache)
             | _ \<Rightarrow> (\<lparr>status = st, body = ErrorJson
                   (''Failed to fetch forecast data ('' @ String_of_int st @ '')'')
                   (Val ''Unknown forecast error'')\<rparr>, weatherCache))
          else
            (case d of
               Val rawForecastData \<Rightarrow>
                 (case (forecast_list rawForecastData, city rawForecastData) of
                    (Val list, Val c) \<Rightarrow>
                      (case processForecastList list (timezone c) of
                         Inl e \<Rightarrow> (outer_catch_error (thrown_message e), weatherCache)
                       | Inr dailySummaries \<Rightarrow>
                           let finalDailyForecast = take 7 dailySummaries;
                               combinedData = \<lparr>current = currentWeatherData,
                                 forecast = \<lparr>daily = finalDailyForecast, timezone_offset = timezone c\<rparr>\<rparr>
                           in (\<lparr>status = 200, body = Json (Combined combinedData)\<rparr>,
                               weatherCache(cacheKey \<mapsto> \<lparr>data = combinedData, timestamp = now\<rparr>)))
                  | _ \<Rightarrow> (outer_catch_error (thrown_message TypeError), weatherCache))
             | _ \<Rightarrow> (outer_catch_error (thrown_message TypeError), weatherCache)))"

definition owm_baseUrl :: "WeatherEnv \<Rightarrow> string" where
  "owm_baseUrl env =
     (case OPENWEATHERMAP_BASE_URL env of
        None \<Rightarrow> ''https://api.openweathermap.org/data/2.5''
      | Some b \<Rightarrow> if b = [] then ''https://api.openweathermap.org/data/2.5'' else b)"

definition owm_apiKey :: "WeatherEnv \<Rightarrow> string" where
  "owm_apiKey env = (case OPENWEATHERMAP_API_KEY env of None \<Rightarrow> [] | Some k \<Rightarrow> k)"

definition currentUrl :: "WeatherEnv \<Rightarrow> string \<Rightarrow> string \<Rightarrow> OwmUrl" where
  "currentUrl env c units =
     \<lparr>url_base = owm_baseUrl env, url_path = ''/weather'', url_query = ByCity c,
      url_appid = owm_apiKey env, url_units = units\<rparr>"

text \<open>
  \<open>lat = currentWeatherData?.coord?.lat\<close>, \<open>lon\<close> likewise; with both defined the
  forecast is requested by coordinates, otherwise by city name.
\<close>

definition forecastUrl :: "WeatherEnv \<Rightarrow> string \<Rightarrow> string \<Rightarrow> CurrentWeatherData js \<Rightarrow> OwmUrl" where
  "forecastUrl env c units currentWeatherData =
     (let coords = (case currentWeatherData of
                      Val b \<Rightarrow> (case coord b of Val co \<Rightarrow> Some co | _ \<Rightarrow> None)
                    | _ \<Rightarrow> None)
      in \<lparr>url_base = owm_baseUrl env, url_path = ''/forecast'',
          url_query = (case coords of Some co \<Rightarrow> ByCoord (lat co) (lon co) | None \<Rightarrow> ByCity c),
          url_appid = owm_apiKey env, url_units = units\<rparr>)"

definition combined_GET ::
  "WeatherEnv \<Rightarrow> OwmUpstream \<Rightarrow> CombinedWeatherData ServerCache \<Rightarrow> int \<Rightarrow> WeatherRequest \<Rightarrow>
   (CombinedPayload, CombinedWeatherData ServerCache, OwmUrl) Handled" where
  "combined_GET env upstream weatherCache now request =
     (let idle = \<lparr>response = \<lparr>status = 400, body = ErrorJson ''City parameter is required'' Undefined\<rparr>,
                  cache_after = weatherCache, upstream_calls = []\<rparr>
      in case city_param request of
        None \<Rightarrow> idle
      | Some c \<Rightarrow>
        if c = [] then idle
        else
          let units = units_of request;
              cacheKey = weather_cacheKey c units
          in case fresh_entry weatherCache cacheKey now CACHE_DURATION_combined of
            Some entry \<Rightarrow> idle\<lparr>response := \<lparr>status = 200, body = Json (Combined (data entry))\<rparr>\<rparr>
          | None \<Rightarrow>
            if \<not> key_configured (OPENWEATHERMAP_API_KEY env) then not_configured idle
            else
              case axios_get below_500 (weather_endpoint upstream (currentUrl env c units)) of
                RejectedNoResponse m \<Rightarrow>
                  idle\<lparr>response := \<lparr>status = 503, body =
                         ErrorJson ''Network error fetching current weather'' (Val m)\<rparr>,
                       upstream_calls := [currentUrl env c units]\<rparr>
              | RejectedResponse st d m \<Rightarrow>
                  idle\<lparr>response := outer_catch_response st (body_message d) m,
                       upstream_calls := [currentUrl env c units]\<rparr>
              | Resolved st d \<Rightarrow>
                  if st \<noteq> 200 then
                    idle\<lparr>response :=
                           (case d of
                              Val b \<Rightarrow> \<lparr>status = st, body = Json (UpstreamCurrent b)\<rparr>
                            | _ \<Rightarrow> \<lparr>status = st, body = ErrorJson
                                  (''Failed to fetch current weather ('' @ String_of_int st @ '')'')
                                  (Val ''Unknown error'')\<rparr>),
                         upstream_calls := [currentUrl env c units]\<rparr>
                  else
                    let (r, cache') = combined_step2 upstream weatherCache cacheKey now d
                                        (forecastUrl env c units d)
                    in \<lparr>response = r, cache_after = cache',
                        upstream_calls = [currentUrl env c units, forecastUrl env c units d]\<rparr>)"

section \<open>GitHub routes: upstream data and requests\<close>

record Owner =
  owner_avatar_url :: "string js"

record RepoLicense =
  license_name :: string
  license_url :: string

text \<open>
  A repository object of the GitHub REST API with the fields the routes read
  (\<open>GitHubTrendingItem\<close>): \<open>description\<close>, \<open>language\<close>, \<open>homepage\<close>,
  \<open>license\<close> and the owner's \<open>avatar_url\<close> may be \<open>null\<close>.
\<close>

record GitHubRepo =
  repo_id :: int
  repo_name :: string
  repo_full_name :: string
  repo_description :: "string js"
  repo_html_url :: string
  repo_stargazers_count :: int
  repo_language :: "string js"
  repo_owner :: "Owner js"
  repo_topics :: "string list js"
  repo_open_issues_count :: int
  repo_created_at :: string
  repo_updated_at :: string
  repo_homepage :: "string js"
  repo_forks_count :: int
  repo_license :: "RepoLicense js"

record Label =
  label_name :: string
  label_color :: string

record GitHubIssue =
  issue_id :: int
  issue_number :: int
  title :: string
  issue_html_url :: string
  labels :: "Label list"
  issue_created_at :: string

text \<open>The body of an issues response: an array of issues, or anything else.\<close>

datatype IssuesBody = IssueArray "GitHubIssue list" | NotAnArray

record SearchBody =
  items :: "GitHubRepo list js"

text \<open>
  The requests, by their URL: the base URL, then what the URL is built from. The
  trending query holds the day it is made and the \<open>daysBack\<close> of its creation-date
  bound, then the language and topic qualifiers.
\<close>

datatype GitHubUrl =
    RepoUrl string string
  | BeginnerIssuesUrl string string
  | IssuesUrl string string
  | SearchUrl string string
  | TrendingUrl string int nat "string option" "string option"

record 'u Request =
  url :: 'u
  headers :: "(string \<times> string) list"

record GitHubUpstream =
  repo_endpoint :: "GitHubUrl Request \<Rightarrow> GitHubRepo js HttpReply"
  issues_endpoint :: "GitHubUrl Request \<Rightarrow> IssuesBody HttpReply"
  search_endpoint :: "GitHubUrl Request \<Rightarrow> SearchBody js HttpReply"

record GitHubEnv =
  GITHUB_API_TOKEN :: "string option"
  GITHUB_API_BASE_URL :: "string option"

definition github_baseUrl :: "GitHubEnv \<Rightarrow> string" where
  "github_baseUrl env =
     (case GITHUB_API_BASE_URL env of
        None \<Rightarrow> ''https://api.github.com''
      | Some b \<Rightarrow> if b = [] then ''https://api.github.com'' else b)"

definition baseHeaders :: "GitHubEnv \<Rightarrow> (string \<times> string) list" where
  "baseHeaders env =
     [(''Accept'', ''application/vnd.github+json''), (''X-GitHub-Api-Version'', ''2022-11-28'')] @
     (case GITHUB_API_TOKEN env of
        None \<Rightarrow> []
      | Some t \<Rightarrow> if t \<noteq> [] \<and> t \<noteq> ''your_github_api_token''
                  then [(''Authorization'', ''Bearer '' @ t)] else [])"

text \<open>\<open>item.license ? { name: item.license.name, url: item.license.url } : undefined\<close>\<close>

definition license_of :: "RepoLicense js \<Rightarrow> License js" where
  "license_of l =
     (case l of Val x \<Rightarrow> Val \<lparr>lic_name = license_name x, lic_url = Val (license_url x)\<rparr>
      | _ \<Rightarrow> Undefined)"

text \<open>\<open>item.owner?.avatar_url || ''\<close>\<close>

definition owner_avatar_or_empty :: "Owner js \<Rightarrow> string js" where
  "owner_avatar_or_empty ow =
     (case ow of Val x \<Rightarrow> or_empty_string (owner_avatar_url x) | _ \<Rightarrow> Val [])"

section \<open>GitHub projects route (app/api/github/route.ts)\<close>

definition CACHE_DURATION_github :: int where
  "CACHE_DURATION_github = 30 * 60 * 1000"

text \<open>The object literal \<open>repoData\<close> of \<open>getRepoDetails\<close>.\<close>

definition repoData_of :: "GitHubRepo \<Rightarrow> GitHubProjectData" where
  "repoData_of d =
     \<lparr>proj_id = repo_id d,
      name = repo_name d,
      full_name = repo_full_name d,
      description = or_empty_string (repo_description d),
      html_url = repo_html_url d,
      stargazers_count = repo_stargazers_count d,
      language = or_empty_string (repo_language d),
      avatar_url = owner_avatar_or_empty (repo_owner d),
      topics = or_empty_array (repo_topics d),
      open_issues_count = repo_open_issues_count d,
      created_at = repo_created_at d,
      updated_at = repo_updated_at d,
      homepage = repo_homepage d,
      forks_count = repo_forks_count d,
      license = license_of (repo_license d),
      is_bookmarked = Undefined\<rparr>"

text \<open>
  \<open>getRepoDetails\<close>: the result (\<open>None\<close> for \<open>null\<close>), the cache after it and the
  requests it made. Every exception inside the \<open>try\<close> ends in \<open>return null\<close>.
\<close>

definition getRepoDetails ::
  "GitHubEnv \<Rightarrow> GitHubUpstream \<Rightarrow> GitHubProjectData ServerCache \<Rightarrow> int \<Rightarrow> string \<Rightarrow>
   (string \<times> string) list \<Rightarrow>
   GitHubProjectData option \<times> GitHubProjectData ServerCache \<times> GitHubUrl Request list" where
  "getRepoDetails env upstream repoCache now repoFullName hdrs =
     (let cacheKey = ''repo_'' @ repoFullName
      in case fresh_entry repoCache cacheKey now CACHE_DURATION_github of
           Some entry \<Rightarrow> (Some (data entry), repoCache, [])
         | None \<Rightarrow>
             let req = \<lparr>url = RepoUrl (github_baseUrl env) repoFullName, headers = hdrs\<rparr>
             in case axios_get default_validateStatus (repo_endpoint upstream req) of
                  Resolved st received \<Rightarrow>
                    if st \<noteq> 200 then (None, repoCache, [req])
                    else (case received of
                            Val d \<Rightarrow>
                              let repoData = repoData_of d
                              in (Some repoData,
                                  repoCache(cacheKey \<mapsto> \<lparr>data = repoData, timestamp = now\<rparr>), [req])
                          | _ \<Rightarrow> (None, repoCache, [req]))
                | _ \<Rightarrow> (None, repoCache, [req]))"

text \<open>The object literal that \<open>fetchTrendingRepos\<close> maps every item to.\<close>

definition trending_item_of :: "GitHubRepo \<Rightarrow> GitHubProjectData" where
  "trending_item_of item =
     \<lparr>proj_id = repo_id item,
      name = repo_name item,
      full_name = repo_full_name item,
      description = or_empty_string (repo_description item),
      html_url = repo_html_url item,
      stargazers_count = repo_stargazers_count item,
      language = or_empty_string (repo_language item),
      avatar_url = owner_avatar_or_empty (repo_owner item),
      topics = or_empty_array (repo_topics item),
      open_issues_count = repo_open_issues_count item,
      created_at = repo_created_at item,
      updated_at = repo_updated_at item,
      homepage = repo_homepage item,
      forks_count = repo_forks_count item,
      license = license_of (repo_license item),
      is_bookmarked = Undefined\<rparr>"

record GitHubTrendingParams =
  param_language :: "string option"
  param_since :: "string option"
  param_topic :: "string option"

definition daysBack_of :: "string option \<Rightarrow> nat" where
  "daysBack_of since =
     (let s = (case since of None \<Rightarrow> ''daily'' | Some x \<Rightarrow> if x = [] then ''daily'' else x)
      in if s = ''monthly'' then 30 else if s = ''weekly'' then 7 else 1)"

definition nonempty :: "string option \<Rightarrow> string option" where
  "nonempty x = (case x of None \<Rightarrow> None | Some t \<Rightarrow> if t = [] then None else Some t)"

definition fetchTrendingRepos ::
  "GitHubEnv \<Rightarrow> GitHubUpstream \<Rightarrow> int \<Rightarrow> GitHubTrendingParams \<Rightarrow> (string \<times> string) list \<Rightarrow>
   GitHubProjectData list option \<times> GitHubUrl Request list" where
  "fetchTrendingRepos env upstream today params hdrs =
     (let req = \<lparr>url = TrendingUrl (github_baseUrl env) today (daysBack_of (param_since params))
                        (nonempty (param_language params)) (nonempty (param_topic params)),
                 headers = hdrs\<rparr>
      in case axios_get default_validateStatus (search_endpoint upstream req) of
           Resolved st received \<Rightarrow>
             if st \<noteq> 200 then (None, [req])
             else (case received of
                     Val b \<Rightarrow> (case items b of
                                 Val its \<Rightarrow> (Some (map trending_item_of its), [req])
                               | _ \<Rightarrow> (None, [req]))
                   | _ \<Rightarrow> (None, [req]))
         | _ \<Rightarrow> (None, [req]))"

definition issue_of :: "GitHubIssue \<Rightarrow> GitHubIssue" where
  "issue_of item =
     \<lparr>issue_id = issue_id item,
      issue_number = issue_number item,
      title = title item,
      issue_html_url = issue_html_url item,
      labels = map (\<lambda>label. \<lparr>label_name = label_name label, label_color = label_color label\<rparr>)
                   (labels item),
      issue_created_at = issue_created_at item\<rparr>"

definition getBeginnerFriendlyIssues ::
  "GitHubEnv \<Rightarrow> GitHubUpstream \<Rightarrow> string \<Rightarrow> (string \<times> string) list \<Rightarrow>
   GitHubIssue list \<times> GitHubUrl Request list" where
  "getBeginnerFriendlyIssues env upstream repoFullName hdrs =
     (let req = \<lparr>url = BeginnerIssuesUrl (github_baseUrl env) repoFullName, headers = hdrs\<rparr>
      in case axios_get default_validateStatus (issues_endpoint upstream req) of
           Resolved st received \<Rightarrow>
             if st \<noteq> 200 then ([], [req])
             else (case received of
                     IssueArray xs \<Rightarrow> (map issue_of xs, [req])
                   | NotAnArray \<Rightarrow> ([], [req]))
         | _ \<Rightarrow> ([], [req]))"

section \<open>GitHub search route (app/api/github/search/route.ts)\<close>

definition CACHE_DURATION_search :: int where
  "CACHE_DURATION_search = 5 * 60 * 1000"

text \<open>
  The object literal of \<open>searchRepositories\<close>; \<open>item.owner.avatar_url\<close> throws when
  the owner is missing.
\<close>

definition search_item_of :: "GitHubRepo \<Rightarrow> Thrown + GitHubProjectData" where
  "search_item_of item =
     (case repo_owner item of
        Val ow \<Rightarrow>
          Inr \<lparr>proj_id = repo_id item,
               name = repo_name item,
               full_name = repo_full_name item,
               description = or_empty_string (repo_description item),
               html_url = repo_html_url item,
               stargazers_count = repo_stargazers_count item,
               language = or_empty_string (repo_language item),
               avatar_url = owner_avatar_url ow,
               topics = or_empty_array (repo_topics item),
               open_issues_count = repo_open_issues_count item,
               created_at = repo_created_at item,
               updated_at = repo_updated_at item,
               homepage = or_empty_string (repo_homepage item),
               forks_count = repo_forks_count item,
               license = license_of (repo_license item),
               is_bookmarked = Undefined\<rparr>
      | _ \<Rightarrow> Inl TypeError)"

fun map_throwing :: "('a \<Rightarrow> Thrown + 'b) \<Rightarrow> 'a list \<Rightarrow> Thrown + 'b list" where
  "map_throwing f [] = Inr []"
| "map_throwing f (x # xs) =
     (case f x of
        Inl e \<Rightarrow> Inl e
      | Inr y \<Rightarrow> (case map_throwing f xs of Inl e \<Rightarrow> Inl e | Inr ys \<Rightarrow> Inr (y # ys)))"

definition searchRepositories ::
  "GitHubEnv \<Rightarrow> GitHubUpstream \<Rightarrow> GitHubProjectData list ServerCache \<Rightarrow> int \<Rightarrow> string \<Rightarrow>
   (string \<times> string) list \<Rightarrow>
   GitHubProjectData list \<times> GitHubProjectData list ServerCache \<times> GitHubUrl Request list" where
  "searchRepositories env upstream searchCache now query hdrs =
     (if query = [] then ([], searchCache, [])
      else
        let cacheKey = ''search_'' @ query
        in case fresh_entry searchCache cacheKey now CACHE_DURATION_search of
             Some entry \<Rightarrow> (data entry, searchCache, [])
           | None \<Rightarrow>
               let req = \<lparr>url = SearchUrl (github_baseUrl env) query, headers = hdrs\<rparr>
               in case axios_get default_validateStatus (search_endpoint upstream req) of
                    Resolved st received \<Rightarrow>
                      if st \<noteq> 200 then ([], searchCache, [req])
                      else (case received of
                              Val b \<Rightarrow>
                                (case items b of
                                   Val its \<Rightarrow>
                                     (case map_throwing search_item_of its of
                                        Inr repositories \<Rightarrow>
                                          (repositories,
                                           searchCache(cacheKey \<mapsto> \<lparr>data = repositories, timestamp = now\<rparr>),
                                           [req])
                                      | Inl e \<Rightarrow> ([], searchCache, [req]))
                                 | _ \<Rightarrow> ([], searchCache, [req]))
                            | _ \<Rightarrow> ([], searchCache, [req]))
                  | _ \<Rightarrow> ([], searchCache, [req]))"

section \<open>GitHub issues route (app/api/github/issues/route.ts)\<close>

definition CACHE_DURATION_issues :: int where
  "CACHE_DURATION_issues = 5 * 60 * 1000"

definition getRepositoryIssues ::
  "GitHubEnv \<Rightarrow> GitHubUpstream \<Rightarrow> GitHubIssue list ServerCache \<Rightarrow> int \<Rightarrow> string \<Rightarrow>
   (string \<times> string) list \<Rightarrow>
   GitHubIssue list \<times> GitHubIssue list ServerCache \<times> GitHubUrl Request list" where
  "getRepositoryIssues env upstream issueCache now repoFullName hdrs =
     (let cacheKey = ''issues_'' @ repoFullName
      in case fresh_entry issueCache cacheKey now CACHE_DURATION_issues of
           Some entry \<Rightarrow> (data entry, issueCache, [])
         | None \<Rightarrow>
             let req = \<lparr>url = IssuesUrl (github_baseUrl env) repoFullName, headers = hdrs\<rparr>
             in case axios_get default_validateStatus (issues_endpoint upstream req) of
                  Resolved st received \<Rightarrow>
                    if st \<noteq> 200 then ([], issueCache, [req])
                    else (case received of
                            IssueArray xs \<Rightarrow>
                              let issues = map issue_of xs
                              in (issues, issueCache(cacheKey \<mapsto> \<lparr>data = issues, timestamp = now\<rparr>), [req])
                          | NotAnArray \<Rightarrow> ([], issueCache, [req]))
                | _ \<Rightarrow> ([], issueCache, [req]))"

text \<open>The payload \<open>{ issues }\<close> of the issues route.\<close>

datatype IssuesPayload = Issues "GitHubIssue list"

definition issues_GET ::
  "GitHubEnv \<Rightarrow> GitHubUpstream \<Rightarrow> GitHubIssue list ServerCache \<Rightarrow> int \<Rightarrow> string option \<Rightarrow>
   (IssuesPayload, GitHubIssue list ServerCache, GitHubUrl Request) Handled" where
  "issues_GET env upstream issueCache now repo_param =
     (case nonempty repo_param of
        None \<Rightarrow>
          \<lparr>response = \<lparr>status = 400, body = ErrorJson ''Missing repository parameter''
              (Val ''Please provide a repository name in the format owner/repo'')\<rparr>,
           cache_after = issueCache, upstream_calls = []\<rparr>
      | Some repoFullName \<Rightarrow>
          let (issues, cache', calls) =
                getRepositoryIssues env upstream issueCache now repoFullName (baseHeaders env)
          in \<lparr>response = \<lparr>status = 200, body = Json (Issues issues)\<rparr>,
              cache_after = cache', upstream_calls = calls\<rparr>)"

section \<open>AI insight route (app/api/gemini/route.ts)\<close>

text \<open>
  The request body and the upstream response are untyped JSON. \<open>JUndefined\<close> is what
  reading a missing property gives; it does not occur in parsed JSON itself. Numbers
  are reals.
\<close>

datatype json =
    JUndefined
  | JNull
  | JBool bool
  | JNum real
  | JStr string
  | JArr "json list"
  | JObj "(string \<times> json) list"

fun truthy :: "json \<Rightarrow> bool" where
  "truthy JUndefined = False"
| "truthy JNull = False"
| "truthy (JBool b) = b"
| "truthy (JNum x) = (x \<noteq> 0)"
| "truthy (JStr t) = (t \<noteq> [])"
| "truthy (JArr xs) = True"
| "truthy (JObj fs) = True"

text \<open>
  \<open>x.key\<close> for the property names the handler reads (none of them is a built-in
  property of a string, number, boolean or array): \<open>TypeError\<close> on \<open>undefined\<close> and
  \<open>null\<close>, the property of an object, \<open>undefined\<close> otherwise.
\<close>

fun property :: "json \<Rightarrow> string \<Rightarrow> Thrown + json" where
  "property JUndefined key = Inl TypeError"
| "property JNull key = Inl TypeError"
| "property (JObj fs) key = Inr (case map_of fs key of None \<Rightarrow> JUndefined | Some v \<Rightarrow> v)"
| "property j key = Inr JUndefined"

text \<open>\<open>x?.key\<close>\<close>

definition optional_property :: "json \<Rightarrow> string \<Rightarrow> json" where
  "optional_property j key = (case property j key of Inl e \<Rightarrow> JUndefined | Inr v \<Rightarrow> v)"

text \<open>\<open>x[0]\<close>\<close>

fun first_element :: "json \<Rightarrow> Thrown + json" where
  "first_element JUndefined = Inl TypeError"
| "first_element JNull = Inl TypeError"
| "first_element (JArr xs) = Inr (case xs of [] \<Rightarrow> JUndefined | x # rest \<Rightarrow> x)"
| "first_element (JStr t) = Inr (case t of [] \<Rightarrow> JUndefined | c # rest \<Rightarrow> JStr [c])"
| "first_element (JObj fs) = Inr (case map_of fs ''0'' of None \<Rightarrow> JUndefined | Some v \<Rightarrow> v)"
| "first_element j = Inr JUndefined"

text \<open>\<open>x.length === 0\<close> for a truthy \<open>x\<close>\<close>

fun length_is_zero :: "json \<Rightarrow> bool" where
  "length_is_zero (JArr xs) = (xs = [])"
| "length_is_zero (JStr t) = (t = [])"
| "length_is_zero (JObj fs) = (map_of fs ''length'' = Some (JNum 0))"
| "length_is_zero j = False"

text \<open>
  A prompt, by its template and the values the template interpolates, in the order in
  which they occur in it.
\<close>

datatype Prompt =
    ProjectInsight json json json json
  | GlobalInsight json json json json json
  | WeatherOnlyInsight json json json

record GeminiEnv =
  GEMINI_API_KEY :: "string option"
  GEMINI_API_BASE_URL :: "string option"

record GeminiCall =
  call_baseUrl :: string
  call_key :: string
  call_prompt :: Prompt

text \<open>The payload \<open>{ message }\<close>, and the error envelope whose \<open>details\<close> may be any JSON.\<close>

datatype GeminiBody = Message json | GeminiError string json

record GeminiResponse =
  gemini_status :: int
  gemini_body :: GeminiBody

definition bad_request :: "string \<Rightarrow> GeminiResponse \<times> GeminiCall list" where
  "bad_request e = (\<lparr>gemini_status = 400, gemini_body = GeminiError e JUndefined\<rparr>, [])"

text \<open>The \<open>catch\<close> of the handler for an error that is not an axios error.\<close>

definition insight_failed :: "string \<Rightarrow> GeminiCall list \<Rightarrow> GeminiResponse \<times> GeminiCall list" where
  "insight_failed m calls =
     (\<lparr>gemini_status = 500, gemini_body = GeminiError ''Failed to generate AI insight'' (JStr m)\<rparr>, calls)"

text \<open>\<open>a || b\<close>\<close>

definition js_or :: "json \<Rightarrow> json \<Rightarrow> json" where
  "js_or a b = (if truthy a then a else b)"

text \<open>
  The mode selection with its field checks: a prompt, a 400 response, or a
  \<open>TypeError\<close> of \<open>weatherData.main.temp\<close>.
\<close>

definition select_prompt :: "json \<Rightarrow> json \<Rightarrow> json \<Rightarrow> Thrown + (string + Prompt)" where
  "select_prompt weatherData projectData project =
     (if truthy project \<and> \<not> truthy weatherData \<and> \<not> truthy projectData then
        (if \<not> truthy (optional_property project ''name'')
            \<or> \<not> truthy (optional_property project ''description'')
         then Inr (Inl ''Project name and description are required for project-specific insight'')
         else Inr (Inr (ProjectInsight
                (optional_property project ''name'')
                (optional_property project ''description'')
                (js_or (optional_property project ''language'') (JStr ''Not specified''))
                (js_or (optional_property project ''stargazers_count'') (JNum 0)))))
      else if truthy weatherData \<and> truthy projectData \<and> \<not> truthy project then
        (let w = optional_property weatherData ''weather''
         in if \<not> truthy w \<or> \<not> truthy (case first_element w of Inl e \<Rightarrow> JUndefined | Inr x \<Rightarrow> x)
               \<or> \<not> truthy (optional_property projectData ''name'')
            then Inr (Inl ''Required weather and project data fields are missing for global insight'')
            else
              (case property (optional_property weatherData ''main'') ''temp'' of
                 Inl e \<Rightarrow> Inl e
               | Inr temp \<Rightarrow>
                   Inr (Inr (GlobalInsight
                     (optional_property (case first_element w of Inl e \<Rightarrow> JUndefined | Inr x \<Rightarrow> x)
                        ''description'')
                     temp
                     (optional_property weatherData ''name'')
                     (optional_property projectData ''name'')
                     (optional_property projectData ''description'')))))
      else if truthy weatherData \<and> \<not> truthy projectData \<and> \<not> truthy project then
        (let w = optional_property weatherData ''weather''
         in if \<not> truthy w \<or> \<not> truthy (case first_element w of Inl e \<Rightarrow> JUndefined | Inr x \<Rightarrow> x)
               \<or> \<not> truthy (optional_property weatherData ''name'')
            then Inr (Inl ''Required weather data fields are missing for weather-only insight'')
            else
              (case property (optional_property weatherData ''main'') ''temp'' of
                 Inl e \<Rightarrow> Inl e
               | Inr temp \<Rightarrow>
                   Inr (Inr (WeatherOnlyInsight
                     (optional_property weatherData ''name'')
                     (optional_property (case first_element w of Inl e \<Rightarrow> JUndefined | Inr x \<Rightarrow> x)
                        ''description'')
                     temp))))
      else Inr (Inl ''Invalid request body. Provide {project}, {weatherData, projectData}, or just {weatherData}.''))"

text \<open>
  The checks on the upstream answer and \<open>candidates[0].content.parts[0].text\<close>:
  the text, \<open>Inl None\<close> for the handler's own \<open>Error\<close> on an unexpected shape, or a
  \<open>TypeError\<close>.
\<close>

definition generated_text :: "json \<Rightarrow> Thrown option + json" where
  "generated_text d =
     (let candidates = optional_property d ''candidates''
      in if \<not> truthy d \<or> \<not> truthy candidates \<or> length_is_zero candidates then Inl None
         else case first_element candidates of
             Inl e \<Rightarrow> Inl (Some e)
           | Inr c0 \<Rightarrow>
              (case property c0 ''content'' of
                 Inl e \<Rightarrow> Inl (Some e)
               | Inr content \<Rightarrow>
                   let parts = optional_property content ''parts''
                   in if \<not> truthy content \<or> \<not> truthy parts \<or> length_is_zero parts then Inl None
                      else case first_element parts of
                          Inl e \<Rightarrow> Inl (Some e)
                        | Inr p0 \<Rightarrow>
                           (case property p0 ''text'' of
                              Inl e \<Rightarrow> Inl (Some e)
                            | Inr t \<Rightarrow> Inr t)))"

definition gemini_POST ::
  "GeminiEnv \<Rightarrow> (GeminiCall \<Rightarrow> json HttpReply) \<Rightarrow> json option \<Rightarrow> GeminiResponse \<times> GeminiCall list" where
  "gemini_POST env upstream parsed =
     (case parsed of
        None \<Rightarrow> insight_failed ''SyntaxError'' []
      | Some JNull \<Rightarrow> insight_failed (thrown_message TypeError) []
      | Some JUndefined \<Rightarrow> insight_failed (thrown_message TypeError) []
      | Some requestBody \<Rightarrow>
          (case select_prompt (optional_property requestBody ''weatherData'')
                  (optional_property requestBody ''projectData'')
                  (optional_property requestBody ''project'') of
             Inl e \<Rightarrow> insight_failed (thrown_message e) []
           | Inr (Inl invalid) \<Rightarrow> bad_request invalid
           | Inr (Inr prompt) \<Rightarrow>
               (case nonempty (GEMINI_API_KEY env) of
                  None \<Rightarrow>
                    (\<lparr>gemini_status = 500, gemini_body =
                       GeminiError ''Server configuration error'' (JStr ''AI API key not configured.'')\<rparr>, [])
                | Some apiKey \<Rightarrow>
                    (case nonempty (GEMINI_API_BASE_URL env) of
                       None \<Rightarrow>
                         (\<lparr>gemini_status = 500, gemini_body =
                            GeminiError ''Server configuration error'' (JStr ''AI API URL not configured.'')\<rparr>, [])
                     | Some baseUrl \<Rightarrow>
                         let call = \<lparr>call_baseUrl = baseUrl, call_key = apiKey, call_prompt = prompt\<rparr>
                         in case axios_get default_validateStatus (upstream call) of
                              RejectedNoResponse m \<Rightarrow>
                                (\<lparr>gemini_status = 500, gemini_body =
                                   GeminiError ''Failed to communicate with AI service'' (JStr m)\<rparr>, [call])
                            | RejectedResponse st d m \<Rightarrow>
                                (\<lparr>gemini_status = (if st = 0 then 500 else st), gemini_body =
                                   GeminiError ''Failed to communicate with AI service''
                                     (js_or (optional_property (optional_property d ''error'') ''message'')
                                        (JStr m))\<rparr>, [call])
                            | Resolved st d \<Rightarrow>
                                (case generated_text d of
                                   Inr t \<Rightarrow> (\<lparr>gemini_status = 200, gemini_body = Message t\<rparr>, [call])
                                 | Inl None \<Rightarrow>
                                     insight_failed
                                       ''Received an unexpected response format from the AI service.'' [call]
                                 | Inl (Some e) \<Rightarrow> insight_failed (thrown_message e) [call])))))"

section \<open>What the daily buckets hold\<close>

text \<open>
  The first sample of a day among \<open>samples\<close>, and the state of \<open>dailyData\<close> after
  the loop has seen \<open>samples\<close>: one bucket for every day that occurs, each with the
  timestamp of the first sample of its day.
\<close>

definition first_of_day :: "int \<Rightarrow> ThreeHourForecastItem list \<Rightarrow> int \<Rightarrow> ThreeHourForecastItem option" where
  "first_of_day timezoneOffset samples k = find (\<lambda>item. dateKey (dt item) timezoneOffset = k) samples"

definition buckets_of :: "int \<Rightarrow> ThreeHourForecastItem list \<Rightarrow> DailyData \<Rightarrow> bool" where
  "buckets_of timezoneOffset samples dailyData =
     (fst ` set dailyData = (\<lambda>item. dateKey (dt item) timezoneOffset) ` set samples
      \<and> (\<forall>(k, b) \<in> set dailyData.
            \<exists>item. first_of_day timezoneOffset samples k = Some item \<and> bucket_dt b = dt item))"

section \<open>What the issues claim speaks of\<close>

text \<open>A fetch that yields a status other than 200, or no response at all.\<close>

definition fetch_failed :: "'a HttpReply \<Rightarrow> bool" where
  "fetch_failed reply = (case reply of NoReply m \<Rightarrow> True | Reply st d \<Rightarrow> st \<noteq> 200)"

section \<open>What the icon claim speaks of\<close>

text \<open>
  An OpenWeatherMap icon code: two digits and \<open>d\<close> (day) or \<open>n\<close> (night). Folding
  a night variant to its day equivalent replaces the suffix \<open>n\<close> by \<open>d\<close>.
\<close>

definition is_icon_code :: "string \<Rightarrow> bool" where
  "is_icon_code code =
     (case code of
        [a, b, c] \<Rightarrow> a \<in> set ''0123456789'' \<and> b \<in> set ''0123456789''
                     \<and> (c = CHR ''d'' \<or> c = CHR ''n'')
      | _ \<Rightarrow> False)"

definition nightToDay :: "string \<Rightarrow> string" where
  "nightToDay code =
     (if code \<noteq> [] \<and> last code = CHR ''n'' then butlast code @ ''d'' else code)"

text \<open>
  \<open>r\<close> is the most frequent of \<open>codes\<close>, the first to attain the maximum count: at
  some position \<open>i\<close> the code is \<open>r\<close> and its count so far is at least the count of
  every code in the whole list, and at no earlier position has the code there been
  counted that often.
\<close>

definition first_most_frequent :: "string list \<Rightarrow> string \<Rightarrow> bool" where
  "first_most_frequent codes r =
     (\<exists>i. i < length codes \<and> codes ! i = r
        \<and> (\<forall>x. count_list codes x \<le> count_list (take (Suc i) codes) r)
        \<and> (\<forall>j. j < i \<longrightarrow> count_list (take (Suc j) codes) (codes ! j) < count_list (take (Suc i) codes) r))"

text \<open>The state of the loop of \<open>getMostFrequentIcon\<close> after the day codes \<open>ps\<close>.\<close>

definition scanned :: "string list \<Rightarrow> IconScan \<Rightarrow> bool" where
  "scanned ps s =
     ((\<forall>x. frequency s x = (if count_list ps x = 0 then None else Some (count_list ps x)))
      \<and> (\<forall>x. count_list ps x \<le> maxFreq s)
      \<and> (ps = [] \<longrightarrow> maxFreq s = 0)
      \<and> (ps \<noteq> [] \<longrightarrow>
           (\<exists>i. i < length ps \<and> ps ! i = mostFrequentIcon s
              \<and> count_list (take (Suc i) ps) (ps ! i) = maxFreq s
              \<and> (\<forall>j. j < i \<longrightarrow> count_list (take (Suc j) ps) (ps ! j) < maxFreq s))))"

section \<open>What the cache-key claim speaks of\<close>

text \<open>
  The normalized parameters of a parameter object: its properties as pairs of name and
  printed value, sorted by name. A plain endpoint contains no \<open>?\<close>; plain parameters
  have names without \<open>=\<close> and \<open>&\<close> and printed values without \<open>&\<close>.
\<close>

definition normalized_params :: "(string \<times> ParamValue) list \<Rightarrow> (string \<times> string) list" where
  "normalized_params ps = map (\<lambda>k. (k, String_of (map_of ps k))) (sort (map fst ps))"

definition plain_endpoint :: "string \<Rightarrow> bool" where
  "plain_endpoint e = (CHR ''?'' \<notin> set e)"

definition plain_params :: "(string \<times> ParamValue) list \<Rightarrow> bool" where
  "plain_params ps =
     list_all (\<lambda>k. CHR ''='' \<notin> set k \<and> CHR ''&'' \<notin> set k
                  \<and> CHR ''&'' \<notin> set (String_of (map_of ps k))) (map fst ps)"

section \<open>Example data\<close>

text \<open>Concrete values at which the theorems below are instantiated.\<close>

definition example_project :: GitHubProjectData where
  "example_project =
     \<lparr>proj_id = 10270250, name = ''react'', full_name = ''facebook/react'',
      description = Val ''The library for web and native user interfaces.'',
      html_url = ''https://github.com/facebook/react'', stargazers_count = 230000,
      language = Val ''JavaScript'', avatar_url = Val ''https://avatars.githubusercontent.com/u/69631'',
      topics = Val [''react'', ''frontend''], open_issues_count = 900,
      created_at = ''2013-05-24T16:15:54Z'', updated_at = ''2025-01-01T00:00:00Z'',
      homepage = Val ''https://react.dev'', forks_count = 47000,
      license = Val \<lparr>lic_name = ''MIT License'', lic_url = Val ''https://api.github.com/licenses/mit''\<rparr>,
      is_bookmarked = Undefined\<rparr>"

definition example_browser :: Browser where
  "example_browser =
     \<lparr>window_defined = True, bookmark_item = Some [example_project],
      view_history_item = Some [''a/x'', ''b/y'', ''c/z'']\<rparr>"

definition fresh_browser :: Browser where
  "fresh_browser = \<lparr>window_defined = True, bookmark_item = None, view_history_item = None\<rparr>"

definition sample :: "int \<Rightarrow> real \<Rightarrow> string \<Rightarrow> ThreeHourForecastItem" where
  "sample t temp ic =
     \<lparr>dt = t, main_temp = temp, main_pressure = 1012, main_humidity = 70,
      weather = [\<lparr>weather_id = 800, weather_main = ''Clear'',
                  weather_description = ''clear sky'', icon = ic\<rparr>],
      clouds_all = 0, wind_speed = 3, wind_deg = 180, pop = 0\<rparr>"

text \<open>Two samples of 1 January 1970, at 09:00 and at 12:00 UTC.\<close>

definition morning_and_noon :: "ThreeHourForecastItem list" where
  "morning_and_noon = [sample 32400 14 ''01d'', sample 43200 18 ''01d'']"

definition london_request :: WeatherRequest where
  "london_request = \<lparr>city_param = Some ''London'', units_param = Some ''metric''\<rparr>"

definition example_env :: WeatherEnv where
  "example_env = \<lparr>OPENWEATHERMAP_API_KEY = Some ''0123456789abcdef'', OPENWEATHERMAP_BASE_URL = None\<rparr>"

definition london_current :: CurrentWeatherData where
  "london_current = \<lparr>coord = Val \<lparr>lon = -0.1257, lat = 51.5085\<rparr>, message = Undefined,
     other_fields = ''{name: London, main: {temp: 14}}''\<rparr>"

definition london_forecast :: RawForecastResponse where
  "london_forecast = \<lparr>forecast_list = Val morning_and_noon, city = Val \<lparr>timezone = 0\<rparr>,
     forecast_message = Undefined\<rparr>"

definition owm_up :: OwmUpstream where
  "owm_up = \<lparr>weather_endpoint = (\<lambda>u. Reply 200 (Val london_current)),
              forecast_endpoint = (\<lambda>u. Reply 200 (Val london_forecast))\<rparr>"

definition owm_down :: OwmUpstream where
  "owm_down = \<lparr>weather_endpoint = (\<lambda>u. NoReply ''Network Error''),
                forecast_endpoint = (\<lambda>u. NoReply ''Network Error'')\<rparr>"

definition cached_london :: CombinedWeatherData where
  "cached_london = \<lparr>current = Val london_current, forecast = \<lparr>daily = [], timezone_offset = 0\<rparr>\<rparr>"


definition repo_without_homepage :: GitHubRepo where
  "repo_without_homepage =
     \<lparr>repo_id = 1296269, repo_name = ''Hello-World'', repo_full_name = ''octocat/Hello-World'',
      repo_description = Null, repo_html_url = ''https://github.com/octocat/Hello-World'',
      repo_stargazers_count = 80, repo_language = Null,
      repo_owner = Val \<lparr>owner_avatar_url = Val ''https://github.com/images/error/octocat_happy.gif''\<rparr>,
      repo_topics = Val [''octocat''], repo_open_issues_count = 0,
      repo_created_at = ''2011-01-26T19:01:12Z'', repo_updated_at = ''2011-01-26T19:14:43Z'',
      repo_homepage = Null, repo_forks_count = 9, repo_license = Null\<rparr>"

definition github_env :: GitHubEnv where
  "github_env = \<lparr>GITHUB_API_TOKEN = None, GITHUB_API_BASE_URL = None\<rparr>"

definition github_up :: GitHubUpstream where
  "github_up =
     \<lparr>repo_endpoint = (\<lambda>r. Reply 200 (Val repo_without_homepage)),
      issues_endpoint = (\<lambda>r. Reply 403 NotAnArray),
      search_endpoint = (\<lambda>r. Reply 200 (Val \<lparr>items = Val [repo_without_homepage]\<rparr>))\<rparr>"

definition gemini_env :: GeminiEnv where
  "gemini_env = \<lparr>GEMINI_API_KEY = Some ''key'',
     GEMINI_API_BASE_URL = Some ''https://generativelanguage.googleapis.com/v1beta''\<rparr>"

definition both_fields :: json where
  "both_fields = JObj [(''project'', JObj [(''name'', JStr ''react''), (''description'', JStr ''ui'')]),
                       (''weatherData'', JObj [])]"

section \<open>View history\<close>

lemma getViewHistory_addToViewHistory:
  "window_defined b \<Longrightarrow>
   getViewHistory (addToViewHistory fullName b) =
     fullName # take 19 (filter (\<lambda>item. item \<noteq> fullName) (getViewHistory b))"
  by (simp add: addToViewHistory_def getViewHistory_def Let_def numeral_eq_Suc)

text \<open>
  C9. In the browser, after \<open>addToViewHistory fullName\<close> the stored history is
  \<open>fullName\<close> followed by \<open>rest\<close>, where \<open>rest\<close> does not contain \<open>fullName\<close>, is the
  first (at most 19) of the earlier entries other than \<open>fullName\<close> in their earlier
  order (so a subsequence of the earlier history), and the whole has at most 20 entries.
\<close>

theorem addToViewHistory_front_unique_ordered_bounded:
  assumes "window_defined b"
  shows "\<exists>rest. getViewHistory (addToViewHistory fullName b) = fullName # rest
           \<and> fullName \<notin> set rest
           \<and> rest = take 19 (filter (\<lambda>item. item \<noteq> fullName) (getViewHistory b))
           \<and> subseq rest (getViewHistory b)
           \<and> length (getViewHistory (addToViewHistory fullName b)) \<le> 20"
proof -
  let ?old = "getViewHistory b"
  let ?rest = "take 19 (filter (\<lambda>item. item \<noteq> fullName) ?old)"
  have new: "getViewHistory (addToViewHistory fullName b) = fullName # ?rest"
    using assms by (rule getViewHistory_addToViewHistory)
  have notin: "fullName \<notin> set ?rest"
  proof
    assume "fullName \<in> set ?rest"
    then have "fullName \<in> set (filter (\<lambda>item. item \<noteq> fullName) ?old)"
      by (rule in_set_takeD)
    then show False by simp
  qed
  have "subseq ?rest (filter (\<lambda>item. item \<noteq> fullName) ?old)"
    by (simp add: prefix_imp_subseq take_is_prefix)
  then have sub: "subseq ?rest ?old"
    using subseq_filter_left subseq_order.order_trans by blast
  have len: "length (fullName # ?rest) \<le> 20" by simp
  from new notin sub len show ?thesis by simp
qed

theorem addToViewHistory_witness:
  "window_defined example_browser
   \<and> getViewHistory (addToViewHistory ''b/y'' example_browser) = [''b/y'', ''a/x'', ''c/z'']"
  using addToViewHistory_front_unique_ordered_bounded [of example_browser "''b/y''"]
  by (simp add: getViewHistory_def example_browser_def)

section \<open>Bookmarks\<close>

lemma addBookmarkedProject_present:
  "list_ex (\<lambda>q. proj_id q = proj_id p) (getBookmarkedProjects b) \<Longrightarrow> addBookmarkedProject p b = b"
  by (simp add: addBookmarkedProject_def Let_def)

lemma getBookmarkedProjects_add:
  "getBookmarkedProjects (addBookmarkedProject p b) =
     (if window_defined b \<and> \<not> list_ex (\<lambda>q. proj_id q = proj_id p) (getBookmarkedProjects b)
      then getBookmarkedProjects b @ [p\<lparr>is_bookmarked := Val True\<rparr>]
      else getBookmarkedProjects b)"
  by (simp add: addBookmarkedProject_def getBookmarkedProjects_def Let_def)

lemma getBookmarkedProjects_remove:
  "getBookmarkedProjects (removeBookmarkedProject i b) =
     filter (\<lambda>q. proj_id q \<noteq> i) (getBookmarkedProjects b)"
  by (simp add: removeBookmarkedProject_def getBookmarkedProjects_def Let_def)

lemma distinct_ids_add:
  "distinct_ids (getBookmarkedProjects b) \<Longrightarrow>
   distinct_ids (getBookmarkedProjects (addBookmarkedProject p b))"
  by (auto simp: getBookmarkedProjects_add distinct_ids_def list_ex_iff)

lemma distinct_ids_remove:
  "distinct_ids (getBookmarkedProjects b) \<Longrightarrow>
   distinct_ids (getBookmarkedProjects (removeBookmarkedProject i b))"
  by (simp add: getBookmarkedProjects_remove distinct_ids_def distinct_map_filter)

lemma distinct_ids_call:
  "distinct_ids (getBookmarkedProjects b) \<Longrightarrow>
   distinct_ids (getBookmarkedProjects (bookmarkCall c b))"
  by (cases c) (simp_all add: distinct_ids_add distinct_ids_remove)

lemma distinct_ids_calls:
  "distinct_ids (getBookmarkedProjects b) \<Longrightarrow>
   distinct_ids (getBookmarkedProjects (bookmarkCalls cs b))"
  unfolding bookmarkCalls_def
  by (induction cs arbitrary: b) (simp_all add: distinct_ids_call)

lemma removed_not_bookmarked: "\<not> isProjectBookmarked i (removeBookmarkedProject i b)"
  by (simp add: isProjectBookmarked_def getBookmarkedProjects_remove list_ex_iff)

lemma addBookmarkedProject_twice:
  "addBookmarkedProject p (addBookmarkedProject p b) = addBookmarkedProject p b"
proof (cases "addBookmarkedProject p b = b")
  case True
  then show ?thesis by simp
next
  case False
  then have "window_defined b \<and> \<not> list_ex (\<lambda>q. proj_id q = proj_id p) (getBookmarkedProjects b)"
    by (auto simp: addBookmarkedProject_def Let_def split: if_splits)
  then have "list_ex (\<lambda>q. proj_id q = proj_id p) (getBookmarkedProjects (addBookmarkedProject p b))"
    by (simp add: getBookmarkedProjects_add)
  then show ?thesis by (rule addBookmarkedProject_present)
qed

text \<open>
  C10. \<open>addBookmarkedProject\<close> leaves the store as it is when a stored bookmark has the
  project's id (so adding twice is adding once); a bookmark list without repeated ids,
  such as that of a browser that holds no bookmarks yet, has none after any run of
  \<open>addBookmarkedProject\<close> and \<open>removeBookmarkedProject\<close> calls; and after
  \<open>removeBookmarkedProject (id p)\<close>, \<open>isProjectBookmarked (id p)\<close> is false.
\<close>

theorem bookmarks_idempotent_distinct_removed:
  "(list_ex (\<lambda>q. proj_id q = proj_id p) (getBookmarkedProjects b) \<longrightarrow> addBookmarkedProject p b = b)
   \<and> addBookmarkedProject p (addBookmarkedProject p b) = addBookmarkedProject p b
   \<and> (distinct_ids (getBookmarkedProjects b) \<longrightarrow>
        distinct_ids (getBookmarkedProjects (bookmarkCalls cs b)))
   \<and> (bookmark_item b = None \<longrightarrow> distinct_ids (getBookmarkedProjects (bookmarkCalls cs b)))
   \<and> \<not> isProjectBookmarked (proj_id p) (removeBookmarkedProject (proj_id p) b)"
proof -
  have empty: "bookmark_item b = None \<Longrightarrow> distinct_ids (getBookmarkedProjects b)"
    by (simp add: getBookmarkedProjects_def distinct_ids_def)
  show ?thesis
    using addBookmarkedProject_present [of p b] addBookmarkedProject_twice [of p b]
      distinct_ids_calls [of b cs] removed_not_bookmarked [of "proj_id p" b] empty
    by blast
qed

theorem bookmarks_witness:
  "list_ex (\<lambda>q. proj_id q = proj_id example_project) (getBookmarkedProjects example_browser)
   \<and> addBookmarkedProject example_project example_browser = example_browser
   \<and> distinct_ids (getBookmarkedProjects example_browser)
   \<and> distinct_ids (getBookmarkedProjects
        (bookmarkCalls [Add example_project, Remove 2] example_browser))
   \<and> bookmark_item fresh_browser = None
   \<and> distinct_ids (getBookmarkedProjects
        (bookmarkCalls [Add example_project, Add example_project, Remove 2] fresh_browser))"
proof -
  have h1: "list_ex (\<lambda>q. proj_id q = proj_id example_project) (getBookmarkedProjects example_browser)"
    by (simp add: example_browser_def getBookmarkedProjects_def)
  have h2: "distinct_ids (getBookmarkedProjects example_browser)"
    by (simp add: example_browser_def getBookmarkedProjects_def distinct_ids_def)
  have h3: "bookmark_item fresh_browser = None"
    by (simp add: fresh_browser_def)
  show ?thesis
    using bookmarks_idempotent_distinct_removed
        [of example_project example_browser "[Add example_project, Remove 2]"]
      bookmarks_idempotent_distinct_removed
        [of example_project fresh_browser "[Add example_project, Add example_project, Remove 2]"]
      h1 h2 h3
    by blast
qed

section \<open>Cache keys\<close>

lemma split_at_first:
  "c \<notin> set x \<Longrightarrow> c \<notin> set y \<Longrightarrow> x @ c # r = y @ c # s \<Longrightarrow> x = y \<and> r = s"
proof (induction x arbitrary: y)
  case Nil
  then show ?case by (cases y) auto
next
  case (Cons a x)
  then show ?case by (cases y) auto
qed

lemma join_eq_Nil: "\<forall>x\<in>set xs. x \<noteq> [] \<Longrightarrow> join sep xs = [] \<longleftrightarrow> xs = []"
  by (induction sep xs rule: join.induct) auto

lemma join_Cons: "xs \<noteq> [] \<Longrightarrow> join sep (x # xs) = x @ sep @ join sep xs"
  by (cases xs) simp_all

lemma join_inj:
  assumes "\<forall>x\<in>set xs. c \<notin> set x \<and> x \<noteq> []" "\<forall>y\<in>set ys. c \<notin> set y \<and> y \<noteq> []"
    "join [c] xs = join [c] ys"
  shows "xs = ys"
  using assms
proof (induction xs arbitrary: ys)
  case Nil
  have "\<forall>y\<in>set ys. y \<noteq> []" using Nil.prems(2) by blast
  moreover have "join [c] ys = []" using Nil.prems(3) by simp
  ultimately have "ys = []" using join_eq_Nil by blast
  then show ?case by simp
next
  case (Cons x xs)
  have ne: "\<forall>z\<in>set (x # xs). z \<noteq> []" using Cons.prems(1) by blast
  show ?case
  proof (cases ys)
    case Nil
    then have "join [c] (x # xs) = []" using Cons.prems(3) by simp
    then have "x # xs = []" using join_eq_Nil ne by blast
    then show ?thesis by simp
  next
    case ys: (Cons y ys')
    have cx: "c \<notin> set x" using Cons.prems(1) by simp
    have cy: "c \<notin> set y" using Cons.prems(2) ys by simp
    have eq: "join [c] (x # xs) = join [c] (y # ys')" using Cons.prems(3) ys by simp
    show ?thesis
    proof (cases "xs = []")
      case True
      show ?thesis
      proof (cases "ys' = []")
        case True
        with \<open>xs = []\<close> eq ys show ?thesis by simp
      next
        case False
        with \<open>xs = []\<close> eq have "x = y @ c # join [c] ys'"
          by (simp add: join_Cons)
        then have "c \<in> set x" by simp
        with cx show ?thesis by simp
      qed
    next
      case False
      show ?thesis
      proof (cases "ys' = []")
        case True
        with \<open>xs \<noteq> []\<close> eq have "y = x @ c # join [c] xs"
          by (simp add: join_Cons)
        then have "c \<in> set y" by simp
        with cy show ?thesis by simp
      next
        case ys': False
        from eq False ys'
        have "x @ c # join [c] xs = y @ c # join [c] ys'" by (simp add: join_Cons)
        then have xy: "x = y \<and> join [c] xs = join [c] ys'"
          by (rule split_at_first [OF cx cy])
        then have "x = y" and j: "join [c] xs = join [c] ys'" by simp_all
        have p1: "\<forall>x\<in>set xs. c \<notin> set x \<and> x \<noteq> []" using Cons.prems(1) by simp
        have p2: "\<forall>y\<in>set ys'. c \<notin> set y \<and> y \<noteq> []" using Cons.prems(2) ys by simp
        have "xs = ys'" using Cons.IH [OF p1 p2 j] .
        with \<open>x = y\<close> ys show ?thesis by simp
      qed
    qed
  qed
qed

lemma sortedParams_normalized:
  "sortedParams ps = map (\<lambda>(k, v). k @ ''='' @ v) (normalized_params ps)"
  by (simp add: sortedParams_def normalized_params_def)

lemma plain_normalized:
  "plain_params ps \<Longrightarrow> (k, v) \<in> set (normalized_params ps) \<Longrightarrow>
     CHR ''='' \<notin> set k \<and> CHR ''&'' \<notin> set k \<and> CHR ''&'' \<notin> set v"
  by (auto simp: plain_params_def normalized_params_def list_all_iff)

lemma normalized_of_sortedParams:
  assumes p: "plain_params ps" and q: "plain_params qs"
    and e: "sortedParams ps = sortedParams qs"
  shows "normalized_params ps = normalized_params qs"
proof -
  have inj: "inj_on (\<lambda>(k, v). k @ ''='' @ v) (set (normalized_params ps) \<union> set (normalized_params qs))"
  proof (rule inj_onI, clarify)
    fix k v k' v'
    assume a: "(k, v) \<in> set (normalized_params ps) \<union> set (normalized_params qs)"
      and b: "(k', v') \<in> set (normalized_params ps) \<union> set (normalized_params qs)"
      and eq: "k @ ''='' @ v = k' @ ''='' @ v'"
    from a p q have k: "CHR ''='' \<notin> set k" using plain_normalized by blast
    from b p q have k': "CHR ''='' \<notin> set k'" using plain_normalized by blast
    from eq have "k @ CHR ''='' # v = k' @ CHR ''='' # v'" by simp
    then show "k = k' \<and> v = v'" by (rule split_at_first [OF k k'])
  qed
  from e have "map (\<lambda>(k, v). k @ ''='' @ v) (normalized_params ps)
             = map (\<lambda>(k, v). k @ ''='' @ v) (normalized_params qs)"
    by (simp add: sortedParams_normalized)
  with inj show ?thesis
    by (meson inj_on_map_eq_map sup_ge1 sup_ge2 inj_on_subset)
qed

lemma sortedParams_plain:
  "plain_params ps \<Longrightarrow> \<forall>x\<in>set (sortedParams ps). CHR ''&'' \<notin> set x \<and> x \<noteq> []"
  by (auto simp: sortedParams_def plain_params_def list_all_iff)

lemma generateCacheKey_inj_plain:
  assumes "plain_endpoint e1" "plain_endpoint e2" "plain_params p1" "plain_params p2"
    and eq: "generateCacheKey e1 p1 = generateCacheKey e2 p2"
  shows "e1 = e2 \<and> normalized_params p1 = normalized_params p2"
proof -
  let ?j1 = "join ''&'' (sortedParams p1)" and ?j2 = "join ''&'' (sortedParams p2)"
  have q1: "CHR ''?'' \<notin> set e1" and q2: "CHR ''?'' \<notin> set e2"
    using assms by (simp_all add: plain_endpoint_def)
  have both: "e1 = e2 \<and> ?j1 = ?j2"
  proof (cases "?j1 = []")
    case j1: True
    show ?thesis
    proof (cases "?j2 = []")
      case True
      with j1 eq show ?thesis by (simp add: generateCacheKey_def)
    next
      case False
      with j1 eq have "e1 = e2 @ CHR ''?'' # ?j2" by (simp add: generateCacheKey_def)
      with q1 show ?thesis by auto
    qed
  next
    case j1: False
    show ?thesis
    proof (cases "?j2 = []")
      case True
      with j1 eq have "e2 = e1 @ CHR ''?'' # ?j1" by (simp add: generateCacheKey_def)
      with q2 show ?thesis by auto
    next
      case False
      with j1 eq have "e1 @ CHR ''?'' # ?j1 = e2 @ CHR ''?'' # ?j2" by (simp add: generateCacheKey_def)
      then show ?thesis by (rule split_at_first [OF q1 q2])
    qed
  qed
  then have "sortedParams p1 = sortedParams p2"
    using join_inj [of "sortedParams p1" "CHR ''&''" "sortedParams p2"]
      sortedParams_plain [OF assms(3)] sortedParams_plain [OF assms(4)] by simp
  with both show ?thesis using normalized_of_sortedParams assms(3,4) by blast
qed

lemma generateCacheKey_order_independent:
  assumes "distinct (map fst ps)" "distinct (map fst qs)" "set ps = set qs"
  shows "generateCacheKey ep ps = generateCacheKey ep qs"
proof -
  have m: "map_of ps = map_of qs" using assms by (simp add: map_of_inject_set)
  have "set (map fst ps) = set (map fst qs)" using assms(3) by simp
  then have "sort (map fst ps) = sort (map fst qs)"
    using assms(1,2)
    by (intro sorted_distinct_set_unique) simp_all
  with m show ?thesis by (simp add: generateCacheKey_def sortedParams_def)
qed

lemma generateCacheKey_a1_b2:
  "generateCacheKey ep [(''a'', PNum 1), (''b'', PNum 2)] = ep @ ''?a=1&b=2''"
  by (simp add: generateCacheKey_def sortedParams_def String_of_int_def digit_char_def)

lemma generateCacheKey_b2_a1:
  "generateCacheKey ep [(''b'', PNum 2), (''a'', PNum 1)] = ep @ ''?a=1&b=2''"
  by (simp add: generateCacheKey_def sortedParams_def String_of_int_def digit_char_def)

text \<open>
  C3 fails in its last part as stated: nothing is escaped, so a value that contains
  \<open>&\<close> and \<open>=\<close> reads as further parameters, and an endpoint that contains \<open>?\<close>
  reads as an endpoint with parameters. Two distinct pairs of endpoint and normalized
  parameters then share a key.
\<close>

theorem generateCacheKey_collision:
  "(''/api/github'', normalized_params [(''language'', PStr ''c&topic=web'')])
     \<noteq> (''/api/github'', normalized_params [(''language'', PStr ''c''), (''topic'', PStr ''web'')])
   \<and> generateCacheKey ''/api/github'' [(''language'', PStr ''c&topic=web'')]
     = generateCacheKey ''/api/github'' [(''language'', PStr ''c''), (''topic'', PStr ''web'')]
   \<and> (''/api?a=1'', normalized_params []) \<noteq> (''/api'', normalized_params [(''a'', PNum 1)])
   \<and> generateCacheKey ''/api?a=1'' [] = generateCacheKey ''/api'' [(''a'', PNum 1)]"
  by (simp add: generateCacheKey_def sortedParams_def normalized_params_def String_of_int_def
      digit_char_def)

text \<open>
  C3, amended. \<open>generateCacheKey\<close> does not depend on the enumeration order of the
  parameters: two parameter objects with the same properties give the same key, and
  \<open>{a: 1, b: 2}\<close> and \<open>{b: 2, a: 1}\<close> do. Two distinct pairs of endpoint and
  normalized parameters give distinct keys when the endpoints are plain (no \<open>?\<close>) and
  the parameters are plain (no \<open>=\<close> or \<open>&\<close> in a name, no \<open>&\<close> in a printed value).
\<close>

theorem generateCacheKey_order_independent_injective_on_plain:
  "(distinct (map fst ps) \<and> distinct (map fst qs) \<and> set ps = set qs \<longrightarrow>
      generateCacheKey ep ps = generateCacheKey ep qs)
   \<and> generateCacheKey ep [(''a'', PNum 1), (''b'', PNum 2)]
       = generateCacheKey ep [(''b'', PNum 2), (''a'', PNum 1)]
   \<and> (plain_endpoint e1 \<and> plain_endpoint e2 \<and> plain_params p1 \<and> plain_params p2
        \<and> (e1, normalized_params p1) \<noteq> (e2, normalized_params p2) \<longrightarrow>
      generateCacheKey e1 p1 \<noteq> generateCacheKey e2 p2)"
proof (intro conjI impI)
  assume "distinct (map fst ps) \<and> distinct (map fst qs) \<and> set ps = set qs"
  then show "generateCacheKey ep ps = generateCacheKey ep qs"
    using generateCacheKey_order_independent by blast
next
  show "generateCacheKey ep [(''a'', PNum 1), (''b'', PNum 2)]
       = generateCacheKey ep [(''b'', PNum 2), (''a'', PNum 1)]"
    by (simp only: generateCacheKey_a1_b2 generateCacheKey_b2_a1)
next
  assume a: "plain_endpoint e1 \<and> plain_endpoint e2 \<and> plain_params p1 \<and> plain_params p2
        \<and> (e1, normalized_params p1) \<noteq> (e2, normalized_params p2)"
  show "generateCacheKey e1 p1 \<noteq> generateCacheKey e2 p2"
  proof
    assume "generateCacheKey e1 p1 = generateCacheKey e2 p2"
    with a have "e1 = e2 \<and> normalized_params p1 = normalized_params p2"
      using generateCacheKey_inj_plain by blast
    with a show False by simp
  qed
qed

theorem generateCacheKey_witness:
  "distinct (map fst [(''city'', PStr ''London''), (''units'', PStr ''metric'')])
   \<and> distinct (map fst [(''units'', PStr ''metric''), (''city'', PStr ''London'')])
   \<and> set [(''city'', PStr ''London''), (''units'', PStr ''metric'')]
       = set [(''units'', PStr ''metric''), (''city'', PStr ''London'')]
   \<and> generateCacheKey ''/api/weather'' [(''city'', PStr ''London''), (''units'', PStr ''metric'')]
       = generateCacheKey ''/api/weather'' [(''units'', PStr ''metric''), (''city'', PStr ''London'')]
   \<and> plain_endpoint ''/api/weather'' \<and> plain_endpoint ''/api/github''
   \<and> plain_params [(''city'', PStr ''London'')] \<and> plain_params [(''count'', PNum 6)]
   \<and> (''/api/weather'', normalized_params [(''city'', PStr ''London'')])
       \<noteq> (''/api/github'', normalized_params [(''count'', PNum 6)])
   \<and> generateCacheKey ''/api/weather'' [(''city'', PStr ''London'')]
       \<noteq> generateCacheKey ''/api/github'' [(''count'', PNum 6)]"
proof -
  have d: "distinct (map fst [(''city'', PStr ''London''), (''units'', PStr ''metric'')])
     \<and> distinct (map fst [(''units'', PStr ''metric''), (''city'', PStr ''London'')])
     \<and> set [(''city'', PStr ''London''), (''units'', PStr ''metric'')]
       = set [(''units'', PStr ''metric''), (''city'', PStr ''London'')]"
    by auto
  have p: "plain_endpoint ''/api/weather'' \<and> plain_endpoint ''/api/github''
     \<and> plain_params [(''city'', PStr ''London'')] \<and> plain_params [(''count'', PNum 6)]"
    by (simp add: plain_endpoint_def plain_params_def String_of_int_def digit_char_def)
  have n: "(''/api/weather'', normalized_params [(''city'', PStr ''London'')])
       \<noteq> (''/api/github'', normalized_params [(''count'', PNum 6)])"
    by simp
  show ?thesis
    using generateCacheKey_order_independent_injective_on_plain
      [of "[(''city'', PStr ''London''), (''units'', PStr ''metric'')]"
          "[(''units'', PStr ''metric''), (''city'', PStr ''London'')]"
          "''/api/weather''" "''/api/weather''" "''/api/github''"
          "[(''city'', PStr ''London'')]" "[(''count'', PNum 6)]"]
      d p n
    by blast
qed

section \<open>Client-side cache\<close>

lemma cacheStore_persistCache [simp]: "cacheStore (persistCache c) = cacheStore c"
  by (simp add: persistCache_def)

lemma has_window_persistCache [simp]: "has_window (persistCache c) = has_window c"
  by (simp add: persistCache_def)

lemma isInitialized_persistCache [simp]: "isInitialized (persistCache c) = isInitialized c"
  by (simp add: persistCache_def)

lemma cacheStore_cleanExpiredEntries:
  "cacheStore (cleanExpiredEntries t c)
     = fmfilter (\<lambda>key. \<not> expired t (cacheStore c) key) (cacheStore c)"
  by (cases "fmfilter (\<lambda>key. \<not> expired t (cacheStore c) key) (cacheStore c) = cacheStore c")
     (simp_all add: cleanExpiredEntries_def Let_def)

lemma lookup_cleanExpiredEntries:
  "fmlookup (cacheStore (cleanExpiredEntries t c)) k =
     (case fmlookup (cacheStore c) k of
        None \<Rightarrow> None
      | Some e \<Rightarrow> if expiryTime e < t then None else Some e)"
  by (simp add: cacheStore_cleanExpiredEntries expired_def split: option.splits)

lemma synced_set: "synced (ClientCache_set now key v T c)"
  by (simp add: synced_def ClientCache_set_def Let_def persistCache_def)

lemma lookup_set:
  "fmlookup (cacheStore (ClientCache_set now key v T c)) key
     = Some \<lparr>data = v, timestamp = now, expiryTime = now + T\<rparr>"
  by (simp add: ClientCache_set_def Let_def)

lemma lookup_initialize:
  "synced c \<Longrightarrow>
   fmlookup (cacheStore (initialize t c)) k =
     (if has_window c \<and> \<not> isInitialized c
      then (case fmlookup (cacheStore c) k of
              None \<Rightarrow> None
            | Some e \<Rightarrow> if expiryTime e < t then None else Some e)
      else fmlookup (cacheStore c) k)"
  by (auto simp: synced_def initialize_def lookup_cleanExpiredEntries split: option.splits)

lemma ClientCache_has_after_set:
  "fst (ClientCache_has t key (ClientCache_set now key v T c)) \<longleftrightarrow> t < now + T"
  by (auto simp: ClientCache_has_def Let_def lookup_initialize [OF synced_set] lookup_set split: option.splits)

lemma ClientCache_get_after_set:
  "fst (ClientCache_get t key (ClientCache_set now key v T c)) = (if t \<le> now + T then Some v else None)"
  by (auto simp: ClientCache_get_def Let_def lookup_cleanExpiredEntries lookup_initialize [OF synced_set] lookup_set split: option.splits)


section \<open>Server-side caches\<close>


lemma axios_get_RejectedResponse:
  "axios_get v r = RejectedResponse st d m \<Longrightarrow> \<not> v st"
  by (cases r) (auto split: if_splits)



lemma combined_GET_hit:
  assumes "city_param req = Some c" "c \<noteq> []"
    and "fresh_entry weatherCache (weather_cacheKey c (units_of req)) t CACHE_DURATION_combined = Some e"
  shows "combined_GET env upstream weatherCache t req =
           \<lparr>response = \<lparr>status = 200, body = Json (Combined (data e))\<rparr>,
            cache_after = weatherCache, upstream_calls = []\<rparr>"
  using assms by (simp add: combined_GET_def Let_def)

lemma combined_step2_stores:
  assumes "combined_step2 upstream weatherCache cacheKey now cur furl = (r, cache')"
    and "status r = 200"
  shows "\<exists>p. body r = Json (Combined p) \<and> cache' = weatherCache(cacheKey \<mapsto> \<lparr>data = p, timestamp = now\<rparr>)"
  using assms
  by (auto simp: combined_step2_def Let_def outer_catch_response_def outer_catch_error_def below_500_def
      split: Axios.splits if_splits js.splits sum.splits prod.splits dest!: axios_get_RejectedResponse)

lemma combined_GET_stores:
  assumes st: "status (response (combined_GET env upstream weatherCache now req)) = 200"
    and calls: "upstream_calls (combined_GET env upstream weatherCache now req) \<noteq> []"
  shows "\<exists>c p. city_param req = Some c \<and> c \<noteq> []
           \<and> response (combined_GET env upstream weatherCache now req)
               = \<lparr>status = 200, body = Json (Combined p)\<rparr>
           \<and> cache_after (combined_GET env upstream weatherCache now req)
               = weatherCache(weather_cacheKey c (units_of req) \<mapsto> \<lparr>data = p, timestamp = now\<rparr>)"
proof -
  let ?r = "combined_GET env upstream weatherCache now req"
  obtain c where c: "city_param req = Some c" "c \<noteq> []"
  proof (cases "city_param req")
    case None
    with calls show ?thesis by (simp add: combined_GET_def)
  next
    case (Some c)
    with calls have "c \<noteq> []" by (auto simp: combined_GET_def)
    with Some that show ?thesis by blast
  qed
  let ?key = "weather_cacheKey c (units_of req)"
  have miss: "fresh_entry weatherCache ?key now CACHE_DURATION_combined = None"
  proof (cases "fresh_entry weatherCache ?key now CACHE_DURATION_combined")
    case None
    then show ?thesis .
  next
    case (Some e)
    with c calls show ?thesis by (simp add: combined_GET_def Let_def)
  qed
  have conf: "key_configured (OPENWEATHERMAP_API_KEY env)"
  proof (rule ccontr)
    assume "\<not> key_configured (OPENWEATHERMAP_API_KEY env)"
    with c miss calls show False by (simp add: combined_GET_def Let_def not_configured_def)
  qed
  show ?thesis
  proof (cases "axios_get below_500 (weather_endpoint upstream (currentUrl env c (units_of req)))")
    case (RejectedNoResponse m)
    with c miss conf st show ?thesis by (simp add: combined_GET_def Let_def)
  next
    case (RejectedResponse s d m)
    then have "s \<noteq> 200"
      using axios_get_RejectedResponse [of below_500 _ s d m] by (auto simp: below_500_def)
    with RejectedResponse c miss conf st show ?thesis
      by (simp add: combined_GET_def Let_def outer_catch_response_def)
  next
    case (Resolved s d)
    show ?thesis
    proof (cases "s = 200")
      case False
      with Resolved c miss conf st show ?thesis
        by (simp add: combined_GET_def Let_def split: js.splits)
    next
      case True
      obtain r cache' where step:
        "combined_step2 upstream weatherCache ?key now d (forecastUrl env c (units_of req) d) = (r, cache')"
        by (cases "combined_step2 upstream weatherCache ?key now d (forecastUrl env c (units_of req) d)")
      have r: "response ?r = r" and ca: "cache_after ?r = cache'"
        using Resolved True c miss conf step by (simp_all add: combined_GET_def Let_def)
      from st r have s200: "status r = 200" by simp
      from combined_step2_stores [OF step s200] obtain p where
        p: "body r = Json (Combined p)"
           "cache' = weatherCache(?key \<mapsto> \<lparr>data = p, timestamp = now\<rparr>)"
        by blast
      from s200 p(1) have "r = \<lparr>status = 200, body = Json (Combined p)\<rparr>" by (cases r) simp
      with r ca c p(2) show ?thesis by blast
    qed
  qed
qed



text \<open>
  At the instant \<open>now = expiryTime\<close> itself the two client operations differ: \<open>has\<close>
  compares \<open>expiryTime > now\<close> and answers no, the sweep in \<open>get\<close> removes an entry
  only when \<open>expiryTime < now\<close> and still returns the value.
\<close>

lemma ClientCache_at_expiryTime:
  "\<not> fst (ClientCache_has (now + T) key (ClientCache_set now key v T c))
   \<and> fst (ClientCache_get (now + T) key (ClientCache_set now key v T c)) = Some v"
  by (simp add: ClientCache_has_after_set ClientCache_get_after_set)



text \<open>
  C1. In the combined weather handler, when the server cache holds, under the key of the
  request's city and units, a payload stored at \<open>t0\<close>, a request at \<open>t1\<close> with
  \<open>t1 - t0\<close> under ten minutes answers 200 with exactly that payload, leaves the
  cache as it is and makes no upstream request. In particular, after a request at \<open>t0\<close>
  that went upstream and answered 200 (which stores its payload), the same request at
  \<open>t1\<close> gets the identical response without an upstream request, whatever the upstream
  would answer then.
\<close>

theorem combined_GET_serves_cached_payload:
  assumes "t1 - t0 < 10 * 60 * 1000"
  shows "(city_param req = Some c \<and> c \<noteq> []
          \<and> weatherCache (weather_cacheKey c (units_of req)) = Some \<lparr>data = payload, timestamp = t0\<rparr>
          \<longrightarrow> combined_GET env upstream weatherCache t1 req
               = \<lparr>response = \<lparr>status = 200, body = Json (Combined payload)\<rparr>,
                  cache_after = weatherCache, upstream_calls = []\<rparr>)
       \<and> (status (response (combined_GET env upstream0 cache0 t0 req)) = 200
          \<and> upstream_calls (combined_GET env upstream0 cache0 t0 req) \<noteq> []
          \<longrightarrow> response (combined_GET env upstream
                    (cache_after (combined_GET env upstream0 cache0 t0 req)) t1 req)
                 = response (combined_GET env upstream0 cache0 t0 req)
              \<and> upstream_calls (combined_GET env upstream
                    (cache_after (combined_GET env upstream0 cache0 t0 req)) t1 req) = []
              \<and> cache_after (combined_GET env upstream
                    (cache_after (combined_GET env upstream0 cache0 t0 req)) t1 req)
                 = cache_after (combined_GET env upstream0 cache0 t0 req))"
proof (intro conjI impI)
  assume a: "city_param req = Some c \<and> c \<noteq> []
      \<and> weatherCache (weather_cacheKey c (units_of req)) = Some \<lparr>data = payload, timestamp = t0\<rparr>"
  then have "fresh_entry weatherCache (weather_cacheKey c (units_of req)) t1 CACHE_DURATION_combined
               = Some \<lparr>data = payload, timestamp = t0\<rparr>"
    using assms by (simp add: fresh_entry_def CACHE_DURATION_combined_def)
  with a show "combined_GET env upstream weatherCache t1 req
               = \<lparr>response = \<lparr>status = 200, body = Json (Combined payload)\<rparr>,
                  cache_after = weatherCache, upstream_calls = []\<rparr>"
    using combined_GET_hit [of req c weatherCache t1 "\<lparr>data = payload, timestamp = t0\<rparr>" env upstream]
    by simp
next
  let ?first = "combined_GET env upstream0 cache0 t0 req"
  assume b: "status (response ?first) = 200 \<and> upstream_calls ?first \<noteq> []"
  then obtain c' p where s: "city_param req = Some c'" "c' \<noteq> []"
      "response ?first = \<lparr>status = 200, body = Json (Combined p)\<rparr>"
      "cache_after ?first = cache0(weather_cacheKey c' (units_of req) \<mapsto> \<lparr>data = p, timestamp = t0\<rparr>)"
    using combined_GET_stores [of env upstream0 cache0 t0 req] by blast
  have "fresh_entry (cache_after ?first) (weather_cacheKey c' (units_of req)) t1 CACHE_DURATION_combined
          = Some \<lparr>data = p, timestamp = t0\<rparr>"
    using assms s(4) by (simp add: fresh_entry_def CACHE_DURATION_combined_def)
  from combined_GET_hit [OF s(1,2) this, of env upstream] s(3)
  show "response (combined_GET env upstream (cache_after ?first) t1 req) = response ?first"
    and "upstream_calls (combined_GET env upstream (cache_after ?first) t1 req) = []"
    and "cache_after (combined_GET env upstream (cache_after ?first) t1 req) = cache_after ?first"
    by simp_all
qed

lemma london_first_call:
  "status (response (combined_GET example_env owm_up Map.empty 1000 london_request)) = 200
   \<and> length (upstream_calls (combined_GET example_env owm_up Map.empty 1000 london_request)) = 2"
  by (simp add: combined_GET_def Let_def london_request_def example_env_def owm_up_def units_of_def
      fresh_entry_def key_configured_def below_500_def combined_step2_def london_forecast_def
      processForecastList_def morning_and_noon_def sample_def addItem_def dateKey_def getUTCHours_def
      update_bucket_def split: prod.splits)

theorem combined_GET_witness:
  "(600999 :: int) - 1000 < 10 * 60 * 1000
   \<and> city_param london_request = Some ''London'' \<and> ''London'' \<noteq> []
   \<and> (Map.empty(''London-metric'' \<mapsto> \<lparr>data = cached_london, timestamp = 1000\<rparr>))
         (weather_cacheKey ''London'' (units_of london_request))
       = Some \<lparr>data = cached_london, timestamp = 1000\<rparr>
   \<and> combined_GET example_env owm_down
         (Map.empty(''London-metric'' \<mapsto> \<lparr>data = cached_london, timestamp = 1000\<rparr>)) 600999 london_request
       = \<lparr>response = \<lparr>status = 200, body = Json (Combined cached_london)\<rparr>,
          cache_after = Map.empty(''London-metric'' \<mapsto> \<lparr>data = cached_london, timestamp = 1000\<rparr>),
          upstream_calls = []\<rparr>
   \<and> status (response (combined_GET example_env owm_up Map.empty 1000 london_request)) = 200
   \<and> upstream_calls (combined_GET example_env owm_up Map.empty 1000 london_request) \<noteq> []
   \<and> response (combined_GET example_env owm_down
         (cache_after (combined_GET example_env owm_up Map.empty 1000 london_request)) 600999 london_request)
       = response (combined_GET example_env owm_up Map.empty 1000 london_request)
   \<and> upstream_calls (combined_GET example_env owm_down
         (cache_after (combined_GET example_env owm_up Map.empty 1000 london_request)) 600999 london_request)
       = []"
proof -
  have t: "(600999 :: int) - 1000 < 10 * 60 * 1000" by simp
  have h: "city_param london_request = Some ''London'' \<and> ''London'' \<noteq> []
     \<and> (Map.empty(''London-metric'' \<mapsto> \<lparr>data = cached_london, timestamp = 1000\<rparr>))
         (weather_cacheKey ''London'' (units_of london_request))
       = Some \<lparr>data = cached_london, timestamp = 1000\<rparr>"
    by (simp add: london_request_def weather_cacheKey_def units_of_def)
  have f: "status (response (combined_GET example_env owm_up Map.empty 1000 london_request)) = 200
     \<and> upstream_calls (combined_GET example_env owm_up Map.empty 1000 london_request) \<noteq> []"
    using london_first_call by auto
  show ?thesis
    using combined_GET_serves_cached_payload [OF t, of london_request "''London''"
        "Map.empty(''London-metric'' \<mapsto> \<lparr>data = cached_london, timestamp = 1000\<rparr>)"
        cached_london example_env owm_down owm_up Map.empty] t h f
    by blast
qed

section \<open>Daily summaries\<close>

lemma count_list_take_le: "count_list (take n xs) x \<le> count_list xs x"
proof -
  have "count_list xs x = count_list (take n xs) x + count_list (drop n xs) x"
    by (metis append_take_drop_id count_list_append)
  then show ?thesis by simp
qed

lemma scanned_countIcon:
  assumes "scanned ps s"
  shows "scanned (ps @ [dayIcon i]) (countIcon i s)"
proof -
  let ?d = "dayIcon i"
  let ?n = "Suc (count_list ps ?d)"
  let ?ps = "ps @ [?d]"
  have freq: "\<And>x. frequency s x = (if count_list ps x = 0 then None else Some (count_list ps x))"
    and le: "\<And>x. count_list ps x \<le> maxFreq s"
    using assms by (simp_all add: scanned_def)
  have n: "(case frequency s ?d of None \<Rightarrow> 0 | Some m \<Rightarrow> m) + 1 = ?n"
    by (simp add: freq)
  have cnt: "\<And>x. count_list ?ps x = (if x = ?d then ?n else count_list ps x)"
    by simp
  show ?thesis
  proof (cases "?n > maxFreq s")
    case True
    then have st: "countIcon i s = s\<lparr>frequency := (frequency s)(?d \<mapsto> ?n), maxFreq := ?n, mostFrequentIcon := ?d\<rparr>"
      by (simp add: countIcon_def Let_def n del: One_nat_def)
    have a: "\<forall>x. frequency (countIcon i s) x = (if count_list ?ps x = 0 then None else Some (count_list ?ps x))"
      by (simp add: st freq)
    have b: "\<forall>x. count_list ?ps x \<le> maxFreq (countIcon i s)"
      using le True by (auto simp: st intro: le_SucI order_trans [OF le])
    have c: "\<exists>k. k < length ?ps \<and> ?ps ! k = mostFrequentIcon (countIcon i s)
              \<and> count_list (take (Suc k) ?ps) (?ps ! k) = maxFreq (countIcon i s)
              \<and> (\<forall>j. j < k \<longrightarrow> count_list (take (Suc j) ?ps) (?ps ! j) < maxFreq (countIcon i s))"
    proof (intro exI [of _ "length ps"] conjI allI impI)
      show "length ps < length ?ps" by simp
      show "?ps ! length ps = mostFrequentIcon (countIcon i s)" by (simp add: st)
      show "count_list (take (Suc (length ps)) ?ps) (?ps ! length ps) = maxFreq (countIcon i s)"
        by (simp add: st)
      fix j assume j: "j < length ps"
      then have "count_list (take (Suc j) ?ps) (?ps ! j) = count_list (take (Suc j) ps) (ps ! j)"
        by (simp add: nth_append)
      also have "\<dots> \<le> count_list ps (ps ! j)" by (rule count_list_take_le)
      also have "\<dots> \<le> maxFreq s" by (rule le)
      also have "\<dots> < maxFreq (countIcon i s)" using True by (simp add: st)
      finally show "count_list (take (Suc j) ?ps) (?ps ! j) < maxFreq (countIcon i s)" .
    qed
    from a b c show ?thesis by (simp add: scanned_def)
  next
    case False
    then have st: "countIcon i s = s\<lparr>frequency := (frequency s)(?d \<mapsto> ?n)\<rparr>"
      by (simp add: countIcon_def Let_def n del: One_nat_def)
    have a: "\<forall>x. frequency (countIcon i s) x = (if count_list ?ps x = 0 then None else Some (count_list ?ps x))"
      by (simp add: st freq)
    have b: "\<forall>x. count_list ?ps x \<le> maxFreq (countIcon i s)"
      using le False by (auto simp: st)
    have ne: "ps \<noteq> []"
    proof
      assume "ps = []"
      with assms have "maxFreq s = 0" by (simp add: scanned_def)
      with \<open>ps = []\<close> False show False by simp
    qed
    then obtain k where k: "k < length ps" "ps ! k = mostFrequentIcon s"
        "count_list (take (Suc k) ps) (ps ! k) = maxFreq s"
        "\<forall>j. j < k \<longrightarrow> count_list (take (Suc j) ps) (ps ! j) < maxFreq s"
      using assms by (auto simp: scanned_def)
    have c: "\<exists>k. k < length ?ps \<and> ?ps ! k = mostFrequentIcon (countIcon i s)
              \<and> count_list (take (Suc k) ?ps) (?ps ! k) = maxFreq (countIcon i s)
              \<and> (\<forall>j. j < k \<longrightarrow> count_list (take (Suc j) ?ps) (?ps ! j) < maxFreq (countIcon i s))"
    proof (intro exI [of _ k] conjI allI impI)
      show "k < length ?ps" using k(1) by simp
      show "?ps ! k = mostFrequentIcon (countIcon i s)" using k(1,2) by (simp add: st nth_append)
      show "count_list (take (Suc k) ?ps) (?ps ! k) = maxFreq (countIcon i s)"
        using k(1,3) by (simp add: st nth_append)
      fix j assume "j < k"
      with k(1,4) show "count_list (take (Suc j) ?ps) (?ps ! j) < maxFreq (countIcon i s)"
        by (simp add: st nth_append)
    qed
    from a b c show ?thesis by (simp add: scanned_def)
  qed
qed

lemma scanned_fold:
  "scanned ps s \<Longrightarrow> scanned (ps @ map dayIcon icons) (fold countIcon icons s)"
proof (induction icons arbitrary: ps s)
  case Nil
  then show ?case by simp
next
  case (Cons i icons)
  from Cons.IH [OF scanned_countIcon [OF Cons.prems, of i]] show ?case by simp
qed

lemma scanned_initial: "scanned [] \<lparr>frequency = Map.empty, maxFreq = 0, mostFrequentIcon = i\<rparr>"
  by (simp add: scanned_def)

lemma getMostFrequentIcon_first_most_frequent:
  assumes "icons \<noteq> []"
  shows "first_most_frequent (map dayIcon icons) (getMostFrequentIcon icons)"
proof -
  from assms obtain i rest where icons: "icons = i # rest" by (cases icons) auto
  let ?s = "fold countIcon icons \<lparr>frequency = Map.empty, maxFreq = 0, mostFrequentIcon = i\<rparr>"
  let ?ds = "map dayIcon icons"
  have sc: "scanned ?ds ?s" using scanned_fold [OF scanned_initial [of i], of icons] by simp
  have r: "getMostFrequentIcon icons = mostFrequentIcon ?s" by (simp add: icons)
  from sc assms obtain k where k: "k < length ?ds" "?ds ! k = mostFrequentIcon ?s"
      "count_list (take (Suc k) ?ds) (?ds ! k) = maxFreq ?s"
      "\<forall>j. j < k \<longrightarrow> count_list (take (Suc j) ?ds) (?ds ! j) < maxFreq ?s"
    by (auto simp: scanned_def)
  have le: "\<forall>x. count_list ?ds x \<le> maxFreq ?s" using sc by (simp add: scanned_def)
  show ?thesis
    unfolding first_most_frequent_def r
    using k le by (intro exI [of _ k]) simp
qed

lemma first_most_frequent_most_frequent:
  assumes "first_most_frequent codes r"
  shows "r \<in> set codes \<and> (\<forall>x. count_list codes x \<le> count_list codes r)"
proof -
  from assms obtain i where i: "i < length codes" "codes ! i = r"
      "\<forall>x. count_list codes x \<le> count_list (take (Suc i) codes) r"
    by (auto simp: first_most_frequent_def)
  have "count_list (take (Suc i) codes) r \<le> count_list codes r" by (rule count_list_take_le)
  with i show ?thesis by (auto intro: order_trans)
qed

lemma first_most_frequent_unique:
  assumes "first_most_frequent codes r" "first_most_frequent codes r'"
  shows "r = r'"
proof -
  from assms(1) obtain i where i: "i < length codes" "codes ! i = r"
      "\<forall>x. count_list codes x \<le> count_list (take (Suc i) codes) r"
      "\<forall>j. j < i \<longrightarrow> count_list (take (Suc j) codes) (codes ! j) < count_list (take (Suc i) codes) r"
    by (auto simp: first_most_frequent_def)
  from assms(2) obtain i' where i': "i' < length codes" "codes ! i' = r'"
      "\<forall>x. count_list codes x \<le> count_list (take (Suc i') codes) r'"
      "\<forall>j. j < i' \<longrightarrow> count_list (take (Suc j) codes) (codes ! j) < count_list (take (Suc i') codes) r'"
    by (auto simp: first_most_frequent_def)
  have a: "count_list (take (Suc i') codes) r' \<le> count_list (take (Suc i) codes) r"
    using i(3) count_list_take_le [of "Suc i'" codes r'] by (meson order_trans)
  have b: "count_list (take (Suc i) codes) r \<le> count_list (take (Suc i') codes) r'"
    using i'(3) count_list_take_le [of "Suc i" codes r] by (meson order_trans)
  have "\<not> i < i'"
  proof
    assume "i < i'"
    with i'(4) i(2) have "count_list (take (Suc i) codes) r < count_list (take (Suc i') codes) r'"
      by auto
    with a show False by simp
  qed
  moreover have "\<not> i' < i"
  proof
    assume "i' < i"
    with i(4) i'(2) have "count_list (take (Suc i') codes) r' < count_list (take (Suc i) codes) r"
      by auto
    with b show False by simp
  qed
  ultimately have "i = i'" by simp
  with i(2) i'(2) show ?thesis by simp
qed

lemma replace_first_absent: "a \<notin> set cs \<Longrightarrow> replace_first a b cs = cs"
  by (induction cs) auto

lemma dayIcon_icon_code: "is_icon_code code \<Longrightarrow> dayIcon code = nightToDay code"
  by (auto simp: is_icon_code_def dayIcon_def nightToDay_def split: list.splits)


text \<open>
  C6. For a non-empty list of icon codes, \<open>getMostFrequentIcon\<close> returns the most
  frequent code after folding every night variant to its day equivalent, the one that
  first attains the maximum count; no other code fits that description. The bucket
  \<open>['01n', '01n', '02d']\<close> resolves to \<open>'01d'\<close>.
\<close>

theorem getMostFrequentIcon_first_most_frequent_day_code:
  assumes "icons \<noteq> []" and "list_all is_icon_code icons"
  shows "first_most_frequent (map nightToDay icons) (getMostFrequentIcon icons)
       \<and> getMostFrequentIcon icons \<in> set (map nightToDay icons)
       \<and> (\<forall>x. count_list (map nightToDay icons) x
                \<le> count_list (map nightToDay icons) (getMostFrequentIcon icons))
       \<and> (\<forall>r. first_most_frequent (map nightToDay icons) r \<longrightarrow> r = getMostFrequentIcon icons)
       \<and> getMostFrequentIcon [''01n'', ''01n'', ''02d''] = ''01d''"
proof -
  have "map dayIcon icons = map nightToDay icons"
    using assms(2) by (induction icons) (simp_all add: dayIcon_icon_code)
  with getMostFrequentIcon_first_most_frequent [OF assms(1)]
  have f: "first_most_frequent (map nightToDay icons) (getMostFrequentIcon icons)" by simp
  have e: "getMostFrequentIcon [''01n'', ''01n'', ''02d''] = ''01d''"
    by (simp add: countIcon_def dayIcon_def Let_def)
  from f first_most_frequent_most_frequent [OF f] first_most_frequent_unique [OF _ f] e
  show ?thesis by blast
qed

theorem getMostFrequentIcon_witness:
  "[''01n'', ''01n'', ''02d''] \<noteq> [] \<and> list_all is_icon_code [''01n'', ''01n'', ''02d'']
   \<and> map nightToDay [''01n'', ''01n'', ''02d''] = [''01d'', ''01d'', ''02d'']
   \<and> first_most_frequent (map nightToDay [''01n'', ''01n'', ''02d''])
         (getMostFrequentIcon [''01n'', ''01n'', ''02d''])
   \<and> getMostFrequentIcon [''01n'', ''01n'', ''02d''] = ''01d''"
proof -
  have h: "[''01n'', ''01n'', ''02d''] \<noteq> []" "list_all is_icon_code [''01n'', ''01n'', ''02d'']"
    by (simp_all add: is_icon_code_def)
  have m: "map nightToDay [''01n'', ''01n'', ''02d''] = [''01d'', ''01d'', ''02d'']"
    by (simp add: nightToDay_def)
  from getMostFrequentIcon_first_most_frequent_day_code [OF h] h m show ?thesis by blast
qed

text \<open>
  For every list of samples and every offset, the timestamp recorded for a day is the
  timestamp of the first sample of the list that falls on that day, whatever its hour.
\<close>

lemma fst_update_bucket [simp]: "fst ` set (update_bucket k f dailyData) = fst ` set dailyData"
  by (induction dailyData) (auto simp: update_bucket_def)

lemma bucket_dt_update_bucket:
  assumes "\<And>b. bucket_dt (f b) = bucket_dt b" and "(k', b') \<in> set (update_bucket k f dailyData)"
  shows "\<exists>b. (k', b) \<in> set dailyData \<and> bucket_dt b' = bucket_dt b"
  using assms by (induction dailyData) (auto simp: update_bucket_def split: if_splits)

lemma find_append:
  "find P (xs @ ys) = (case find P xs of Some x \<Rightarrow> Some x | None \<Rightarrow> find P ys)"
  by (induction xs) auto

lemma buckets_of_addItem:
  assumes inv: "buckets_of off samples dailyData"
    and step: "addItem off item dailyData = Inr dailyData'"
  shows "buckets_of off (samples @ [item]) dailyData'"
proof -
  let ?k = "dateKey (dt item) off"
  let ?day = "\<lambda>i. dateKey (dt i) off"
  define d1 where "d1 = (if map_of dailyData ?k = None
      then dailyData @ [(?k, \<lparr>temps = [], weatherIcons = [], pops = [], bucket_dt = dt item\<rparr>)]
      else dailyData)"
  from step obtain w ws where w: "weather item = w # ws"
    by (cases "weather item") (auto simp: addItem_def Let_def)
  have d': "dailyData' =
      update_bucket ?k (\<lambda>b. b\<lparr>pops := pops b @ [pop item]\<rparr>)
        (update_bucket ?k (\<lambda>b. b\<lparr>weatherIcons := weatherIcons b @ [icon w]\<rparr>)
          (update_bucket ?k (\<lambda>b. b\<lparr>temps := temps b @ [main_temp item]\<rparr>) d1))"
    using step w by (auto simp: addItem_def Let_def d1_def)
  have keys: "fst ` set dailyData = ?day ` set samples"
    and firsts: "\<And>k b. (k, b) \<in> set dailyData \<Longrightarrow>
        \<exists>i. first_of_day off samples k = Some i \<and> bucket_dt b = dt i"
    using inv by (auto simp: buckets_of_def)
  have k1: "fst ` set d1 = ?day ` set (samples @ [item])"
  proof (cases "map_of dailyData ?k = None")
    case True
    then show ?thesis using keys by (auto simp: d1_def)
  next
    case False
    then have "?k \<in> fst ` set dailyData" by (metis map_of_eq_None_iff)
    then show ?thesis using keys False by (auto simp: d1_def)
  qed
  have f1: "\<exists>i. first_of_day off (samples @ [item]) k = Some i \<and> bucket_dt b = dt i"
    if kb: "(k, b) \<in> set d1" for k b
  proof (cases "(k, b) \<in> set dailyData")
    case True
    from firsts [OF True] show ?thesis by (auto simp: first_of_day_def find_append)
  next
    case False
    with kb have new: "map_of dailyData ?k = None" "k = ?k" "bucket_dt b = dt item"
      by (auto simp: d1_def split: if_splits)
    then have notin: "?k \<notin> ?day ` set samples" using keys by (metis map_of_eq_None_iff)
    have "\<forall>i \<in> set samples. ?day i \<noteq> ?k"
    proof
      fix i assume "i \<in> set samples"
      then have "?day i \<in> ?day ` set samples" by (rule imageI)
      with notin show "?day i \<noteq> ?k" by metis
    qed
    then have "find (\<lambda>i. ?day i = ?k) samples = None" by (simp add: find_None_iff)
    with new show ?thesis by (simp add: first_of_day_def find_append)
  qed
  have f': "\<exists>i. first_of_day off (samples @ [item]) k = Some i \<and> bucket_dt b = dt i"
    if kb: "(k, b) \<in> set dailyData'" for k b
  proof -
    from kb obtain b1 where "(k, b1) \<in> set (update_bucket ?k (\<lambda>b. b\<lparr>weatherIcons := weatherIcons b @ [icon w]\<rparr>)
          (update_bucket ?k (\<lambda>b. b\<lparr>temps := temps b @ [main_temp item]\<rparr>) d1))" "bucket_dt b = bucket_dt b1"
      unfolding d' using bucket_dt_update_bucket [of "\<lambda>b. b\<lparr>pops := pops b @ [pop item]\<rparr>"] by fastforce
    then obtain b2 where "(k, b2) \<in> set (update_bucket ?k (\<lambda>b. b\<lparr>temps := temps b @ [main_temp item]\<rparr>) d1)"
        "bucket_dt b = bucket_dt b2"
      using bucket_dt_update_bucket [of "\<lambda>b. b\<lparr>weatherIcons := weatherIcons b @ [icon w]\<rparr>"] by fastforce
    then obtain b3 where "(k, b3) \<in> set d1" "bucket_dt b = bucket_dt b3"
      using bucket_dt_update_bucket [of "\<lambda>b. b\<lparr>temps := temps b @ [main_temp item]\<rparr>"] by fastforce
    with f1 show ?thesis by auto
  qed
  have "fst ` set dailyData' = ?day ` set (samples @ [item])"
    unfolding d' using k1 by simp
  with f' show ?thesis unfolding buckets_of_def by blast
qed

lemma buckets_of_forEachItem:
  "buckets_of off seen dailyData \<Longrightarrow> forEachItem off samples dailyData = Inr dailyData' \<Longrightarrow>
   buckets_of off (seen @ samples) dailyData'"
proof (induction samples arbitrary: seen dailyData)
  case Nil
  then show ?case by simp
next
  case (Cons item samples)
  from Cons.prems(2) obtain d1 where d1: "addItem off item dailyData = Inr d1"
      "forEachItem off samples d1 = Inr dailyData'"
    by (auto split: sum.splits)
  from Cons.IH [OF buckets_of_addItem [OF Cons.prems(1) d1(1)] d1(2)] show ?case by simp
qed

lemma processForecastList_first_sample_of_day:
  assumes "processForecastList list off = Inr days" and "d \<in> set days"
  shows "\<exists>item. find (\<lambda>item. dateKey (dt item) off = dateKey (daily_dt d) off) list = Some item
           \<and> daily_dt d = dt item"
proof -
  from assms(1) obtain dailyData where fe: "forEachItem off list [] = Inr dailyData"
      and days: "days = take 6 (sort_key daily_dt (map (\<lambda>(k, b). toDailyForecast list b) dailyData))"
    by (auto simp: processForecastList_def split: sum.splits)
  have inv: "buckets_of off list dailyData"
    using buckets_of_forEachItem [of off "[]" "[]" list dailyData] fe by (simp add: buckets_of_def)
  from assms(2) days have "d \<in> set (map (\<lambda>(k, b). toDailyForecast list b) dailyData)"
    by (auto dest: in_set_takeD)
  then obtain k b where kb: "(k, b) \<in> set dailyData" "d = toDailyForecast list b" by auto
  then have dt: "daily_dt d = bucket_dt b" by (simp add: toDailyForecast_def Let_def)
  from inv kb(1) obtain item where it: "first_of_day off list k = Some item" "bucket_dt b = dt item"
    by (auto simp: buckets_of_def)
  then have "dateKey (dt item) off = k" by (auto simp: first_of_day_def dest: find_Some_iff [THEN iffD1])
  with it dt show ?thesis by (auto simp: first_of_day_def)
qed

text \<open>
  C5 does not hold of the code. The hour test of \<open>processForecastList\<close> stands inside
  the branch that creates the bucket, where both of its arms store the timestamp of
  the sample at hand: the day keeps the timestamp of its first sample. Here the day
  has a sample at 09:00 and one at 12:00, and the recorded timestamp is the one of 09:00.
\<close>

theorem processForecastList_records_first_sample:
  "dateKey 32400 0 = dateKey 43200 0
   \<and> getUTCHours 32400 0 = 9 \<and> getUTCHours 43200 0 = 12
   \<and> map dt morning_and_noon = [32400, 43200]
   \<and> (\<exists>d. processForecastList morning_and_noon 0 = Inr [d] \<and> daily_dt d = 32400)"
proof -
  have fe: "forEachItem 0 morning_and_noon []
      = Inr [(0, \<lparr>temps = [14, 18], weatherIcons = [''01d'', ''01d''], pops = [0, 0],
                  bucket_dt = 32400\<rparr>)]"
    by (simp add: morning_and_noon_def sample_def addItem_def dateKey_def getUTCHours_def
        update_bucket_def Let_def)
  have "\<exists>d. processForecastList morning_and_noon 0 = Inr [d] \<and> daily_dt d = 32400"
    by (simp add: processForecastList_def fe toDailyForecast_def Let_def)
  then show ?thesis
    by (simp add: dateKey_def getUTCHours_def morning_and_noon_def sample_def)
qed


section \<open>Normalized projects\<close>

lemma repoData_of_homepage: "homepage (repoData_of d) = repo_homepage d"
  by (simp add: repoData_of_def)

lemma trending_item_of_homepage: "homepage (trending_item_of d) = repo_homepage d"
  by (simp add: trending_item_of_def)

lemma or_empty_string_Val: "\<exists>t. or_empty_string x = Val t"
  by (cases x) auto

lemma or_empty_array_Val: "\<exists>t. or_empty_array x = Val t"
  by (cases x) auto

lemma license_of_not_Null: "license_of l \<noteq> Null"
  by (cases l) (simp_all add: license_of_def)

lemma owner_avatar_or_empty_Val: "\<exists>t. owner_avatar_or_empty ow = Val t"
  using or_empty_string_Val by (cases ow) (auto simp: owner_avatar_or_empty_def)

text \<open>
  What the three mappings do to the nullable upstream fields: \<open>description\<close> and
  \<open>language\<close> always become strings and \<open>license\<close> is never \<open>null\<close>; the search
  mapping also turns \<open>homepage\<close> into a string, the other two copy it.
\<close>

lemma mappings_null_free_fields:
  "description (repoData_of d) \<noteq> Null \<and> language (repoData_of d) \<noteq> Null
   \<and> avatar_url (repoData_of d) \<noteq> Null \<and> topics (repoData_of d) \<noteq> Null
   \<and> license (repoData_of d) \<noteq> Null
   \<and> description (trending_item_of d) \<noteq> Null \<and> language (trending_item_of d) \<noteq> Null
   \<and> avatar_url (trending_item_of d) \<noteq> Null \<and> topics (trending_item_of d) \<noteq> Null
   \<and> license (trending_item_of d) \<noteq> Null"
  using or_empty_string_Val [of "repo_description d"] or_empty_string_Val [of "repo_language d"]
    or_empty_array_Val [of "repo_topics d"] owner_avatar_or_empty_Val [of "repo_owner d"]
    license_of_not_Null [of "repo_license d"]
  by (auto simp: repoData_of_def trending_item_of_def)

lemma search_item_of_null_free_fields:
  assumes "search_item_of d = Inr p"
  shows "description p \<noteq> Null \<and> language p \<noteq> Null \<and> topics p \<noteq> Null
       \<and> homepage p \<noteq> Null \<and> license p \<noteq> Null"
  using assms or_empty_string_Val [of "repo_description d"] or_empty_string_Val [of "repo_language d"]
    or_empty_array_Val [of "repo_topics d"] or_empty_string_Val [of "repo_homepage d"]
    license_of_not_Null [of "repo_license d"]
  by (auto simp: search_item_of_def split: js.splits)

text \<open>
  C4 does not hold of the code: \<open>getRepoDetails\<close> and \<open>fetchTrendingRepos\<close> copy
  \<open>homepage\<close>, so an upstream \<open>null\<close> stays \<open>null\<close> in the normalized project;
  \<open>searchRepositories\<close> writes \<open>item.homepage || ''\<close> and gives the empty string.
\<close>

theorem homepage_null_reaches_normalized_project:
  "repo_homepage repo_without_homepage = Null
   \<and> (\<exists>p cache'. getRepoDetails github_env github_up Map.empty 0 ''octocat/Hello-World'' (baseHeaders github_env)
         = (Some p, cache',
            [\<lparr>url = RepoUrl ''https://api.github.com'' ''octocat/Hello-World'',
              headers = baseHeaders github_env\<rparr>])
        \<and> homepage p = Null \<and> description p = Val [] \<and> language p = Val [] \<and> license p = Undefined)
   \<and> (\<exists>p calls. fetchTrendingRepos github_env github_up 0
           \<lparr>param_language = None, param_since = None, param_topic = None\<rparr> (baseHeaders github_env)
         = (Some [p], calls)
        \<and> homepage p = Null)
   \<and> (\<exists>p cache' calls. searchRepositories github_env github_up Map.empty 0 ''hello'' (baseHeaders github_env)
         = ([p], cache', calls)
        \<and> homepage p = Val [])"
  by (simp add: getRepoDetails_def fetchTrendingRepos_def searchRepositories_def Let_def fresh_entry_def
      github_up_def github_env_def github_baseUrl_def default_validateStatus_def
      repoData_of_def trending_item_of_def search_item_of_def repo_without_homepage_def
      license_of_def owner_avatar_or_empty_def baseHeaders_def)

section \<open>Issues\<close>

lemma axios_get_failed:
  "fetch_failed reply \<Longrightarrow>
   (case axios_get default_validateStatus reply of Resolved st d \<Rightarrow> st \<noteq> 200 | _ \<Rightarrow> True)"
  by (cases reply) (simp_all add: fetch_failed_def)

lemma getBeginnerFriendlyIssues_failed:
  assumes "fetch_failed (issues_endpoint upstream
             \<lparr>url = BeginnerIssuesUrl (github_baseUrl env) repoFullName, headers = hdrs\<rparr>)"
  shows "getBeginnerFriendlyIssues env upstream repoFullName hdrs
           = ([], [\<lparr>url = BeginnerIssuesUrl (github_baseUrl env) repoFullName, headers = hdrs\<rparr>])"
  using axios_get_failed [OF assms]
  by (simp add: getBeginnerFriendlyIssues_def Let_def split: Axios.splits)

lemma getRepositoryIssues_failed:
  assumes "fresh_entry issueCache (''issues_'' @ repoFullName) now CACHE_DURATION_issues = None"
    and "fetch_failed (issues_endpoint upstream
             \<lparr>url = IssuesUrl (github_baseUrl env) repoFullName, headers = hdrs\<rparr>)"
  shows "getRepositoryIssues env upstream issueCache now repoFullName hdrs
           = ([], issueCache, [\<lparr>url = IssuesUrl (github_baseUrl env) repoFullName, headers = hdrs\<rparr>])"
  using axios_get_failed [OF assms(2)] assms(1)
  by (simp add: getRepositoryIssues_def Let_def split: Axios.splits)

text \<open>
  C8. When the issues request of \<open>getBeginnerFriendlyIssues\<close> gets a status other
  than 200 or no response, the helper returns the empty array. When the issues route
  is asked for a repository (a non-empty name), has no fresh cache entry for it and so
  makes its request, and that request gets a status other than 200 or no response, it
  answers 200 with \<open>{issues: []}\<close> and caches nothing.
\<close>

theorem failed_issues_fetch_gives_empty_list:
  "(fetch_failed (issues_endpoint upstream
        \<lparr>url = BeginnerIssuesUrl (github_baseUrl env) repoFullName, headers = hdrs\<rparr>)
      \<longrightarrow> fst (getBeginnerFriendlyIssues env upstream repoFullName hdrs) = [])
   \<and> (repoFullName \<noteq> []
       \<and> fresh_entry issueCache (''issues_'' @ repoFullName) now CACHE_DURATION_issues = None
       \<and> fetch_failed (issues_endpoint upstream
            \<lparr>url = IssuesUrl (github_baseUrl env) repoFullName, headers = baseHeaders env\<rparr>)
      \<longrightarrow> issues_GET env upstream issueCache now (Some repoFullName)
            = \<lparr>response = \<lparr>status = 200, body = Json (Issues [])\<rparr>,
               cache_after = issueCache,
               upstream_calls = [\<lparr>url = IssuesUrl (github_baseUrl env) repoFullName,
                                  headers = baseHeaders env\<rparr>]\<rparr>)"
proof (intro conjI impI)
  assume "fetch_failed (issues_endpoint upstream
        \<lparr>url = BeginnerIssuesUrl (github_baseUrl env) repoFullName, headers = hdrs\<rparr>)"
  then show "fst (getBeginnerFriendlyIssues env upstream repoFullName hdrs) = []"
    by (simp add: getBeginnerFriendlyIssues_failed)
next
  assume a: "repoFullName \<noteq> []
       \<and> fresh_entry issueCache (''issues_'' @ repoFullName) now CACHE_DURATION_issues = None
       \<and> fetch_failed (issues_endpoint upstream
            \<lparr>url = IssuesUrl (github_baseUrl env) repoFullName, headers = baseHeaders env\<rparr>)"
  then have "getRepositoryIssues env upstream issueCache now repoFullName (baseHeaders env)
           = ([], issueCache,
              [\<lparr>url = IssuesUrl (github_baseUrl env) repoFullName, headers = baseHeaders env\<rparr>])"
    using getRepositoryIssues_failed by blast
  with a show "issues_GET env upstream issueCache now (Some repoFullName)
            = \<lparr>response = \<lparr>status = 200, body = Json (Issues [])\<rparr>,
               cache_after = issueCache,
               upstream_calls = [\<lparr>url = IssuesUrl (github_baseUrl env) repoFullName,
                                  headers = baseHeaders env\<rparr>]\<rparr>"
    by (simp add: issues_GET_def nonempty_def)
qed

theorem failed_issues_fetch_witness:
  "fetch_failed (issues_endpoint github_up
        \<lparr>url = BeginnerIssuesUrl (github_baseUrl github_env) ''torvalds/linux'',
         headers = baseHeaders github_env\<rparr>)
   \<and> fst (getBeginnerFriendlyIssues github_env github_up ''torvalds/linux'' (baseHeaders github_env)) = []
   \<and> ''torvalds/linux'' \<noteq> []
   \<and> fresh_entry (Map.empty :: GitHubIssue list ServerCache) (''issues_'' @ ''torvalds/linux'') 0
       CACHE_DURATION_issues = None
   \<and> fetch_failed (issues_endpoint github_up
        \<lparr>url = IssuesUrl (github_baseUrl github_env) ''torvalds/linux'', headers = baseHeaders github_env\<rparr>)
   \<and> response (issues_GET github_env github_up Map.empty 0 (Some ''torvalds/linux''))
       = \<lparr>status = 200, body = Json (Issues [])\<rparr>"
proof -
  have h: "fetch_failed (issues_endpoint github_up
        \<lparr>url = BeginnerIssuesUrl (github_baseUrl github_env) ''torvalds/linux'',
         headers = baseHeaders github_env\<rparr>)"
    "''torvalds/linux'' \<noteq> []"
    "fresh_entry (Map.empty :: GitHubIssue list ServerCache) (''issues_'' @ ''torvalds/linux'') 0
       CACHE_DURATION_issues = None"
    "fetch_failed (issues_endpoint github_up
        \<lparr>url = IssuesUrl (github_baseUrl github_env) ''torvalds/linux'', headers = baseHeaders github_env\<rparr>)"
    by (simp_all add: fetch_failed_def github_up_def fresh_entry_def)
  from failed_issues_fetch_gives_empty_list
    [of github_up github_env "''torvalds/linux''" "baseHeaders github_env" Map.empty 0] h
  show ?thesis by auto
qed

section \<open>AI insight\<close>

lemma gemini_POST_object:
  assumes "requestBody \<noteq> JNull" "requestBody \<noteq> JUndefined"
    and "select_prompt (optional_property requestBody ''weatherData'')
               (optional_property requestBody ''projectData'')
               (optional_property requestBody ''project'') = Inr (Inl invalid)"
  shows "gemini_POST env upstream (Some requestBody) = bad_request invalid"
  using assms by (cases requestBody) (simp_all add: gemini_POST_def)

text \<open>
  C7. A request body whose \<open>project\<close> and \<open>weatherData\<close> are both truthy selects no
  mode: the handler answers 400 with the invalid-body error and makes no upstream
  request, whatever else the body holds and however the server is configured.
\<close>

theorem gemini_POST_rejects_project_with_weatherData:
  assumes "truthy (optional_property requestBody ''project'')"
    and "truthy (optional_property requestBody ''weatherData'')"
  shows "gemini_POST env upstream (Some requestBody)
           = (\<lparr>gemini_status = 400, gemini_body = GeminiError
                ''Invalid request body. Provide {project}, {weatherData, projectData}, or just {weatherData}.''
                JUndefined\<rparr>, [])"
proof -
  have sel: "select_prompt (optional_property requestBody ''weatherData'')
               (optional_property requestBody ''projectData'')
               (optional_property requestBody ''project'')
             = Inr (Inl ''Invalid request body. Provide {project}, {weatherData, projectData}, or just {weatherData}.'')"
    using assms by (simp add: select_prompt_def)
  from assms(1) have "requestBody \<noteq> JNull" "requestBody \<noteq> JUndefined"
    by (auto simp: optional_property_def)
  from gemini_POST_object [OF this sel] show ?thesis by (simp add: bad_request_def)
qed

theorem gemini_POST_witness:
  "truthy (optional_property both_fields ''project'')
   \<and> truthy (optional_property both_fields ''weatherData'')
   \<and> gemini_POST gemini_env (\<lambda>c. Reply 200 JNull) (Some both_fields)
       = (\<lparr>gemini_status = 400, gemini_body = GeminiError
            ''Invalid request body. Provide {project}, {weatherData, projectData}, or just {weatherData}.''
            JUndefined\<rparr>, [])"
proof -
  have h: "truthy (optional_property both_fields ''project'')"
    "truthy (optional_property both_fields ''weatherData'')"
    by (simp_all add: both_fields_def optional_property_def)
  from gemini_POST_rejects_project_with_weatherData [OF h, of gemini_env "\<lambda>c. Reply 200 JNull"] h
  show ?thesis by simp
qed

end
